theory Spec2Isabelle
  imports Complex_Main
begin

section \<open>JavaScript values\<close>

text \<open>
  The values that travel over the JSON-RPC wire and that the code inspects with
  \<open>typeof\<close>, truthiness tests and property reads. Numbers are the integers (the code
  only counts with them and prints them); an object is its list of properties.
\<close>

datatype json =
    JUndefined
  | JNull
  | JBool bool
  | JNum int
  | JStr string
  | JArr "json list"
  | JObj "(string \<times> json) list"

text \<open>\<open>typeof v\<close>: null and arrays are \<open>'object'\<close>.\<close>

fun typeof :: "json \<Rightarrow> string" where
  "typeof JUndefined = ''undefined''"
| "typeof JNull = ''object''"
| "typeof (JBool b) = ''boolean''"
| "typeof (JNum n) = ''number''"
| "typeof (JStr s) = ''string''"
| "typeof (JArr xs) = ''object''"
| "typeof (JObj kvs) = ''object''"

text \<open>Truthiness, as \<open>if (v)\<close>, \<open>!v\<close> and \<open>a && b\<close> test it.\<close>

fun truthy :: "json \<Rightarrow> bool" where
  "truthy JUndefined = False"
| "truthy JNull = False"
| "truthy (JBool b) = b"
| "truthy (JNum n) = (n \<noteq> 0)"
| "truthy (JStr s) = (s \<noteq> [])"
| "truthy (JArr xs) = True"
| "truthy (JObj kvs) = True"

text \<open>
  A property read \<open>v.name\<close> for the names the code reads (\<open>error\<close>, \<open>data\<close>,
  \<open>code\<close>, \<open>message\<close>, \<open>error_message\<close>, \<open>error_type\<close>, \<open>Failure\<close>): reading from
  \<open>null\<close> or \<open>undefined\<close> throws a TypeError (\<open>None\<close> here), a missing property and
  any of these names on a primitive or an array is \<open>undefined\<close>.
\<close>

fun get_prop :: "json \<Rightarrow> string \<Rightarrow> json option" where
  "get_prop JUndefined k = None"
| "get_prop JNull k = None"
| "get_prop (JObj kvs) k = (case map_of kvs k of None \<Rightarrow> Some JUndefined | Some v \<Rightarrow> Some v)"
| "get_prop v k = Some JUndefined"

text \<open>A read from a value that is known not to be \<open>null\<close> or \<open>undefined\<close>.\<close>

definition read_prop :: "json \<Rightarrow> string \<Rightarrow> json" where
  "read_prop v k = (case get_prop v k of None \<Rightarrow> JUndefined | Some x \<Rightarrow> x)"

text \<open>
  The responses an attempt of the channel hands back as they are: anything but an array
  (which starts a follow-up query) and \<open>null\<close> or \<open>undefined\<close> (whose \<open>error\<close> cannot
  be read).
\<close>

fun plain_response :: "json \<Rightarrow> bool" where
  "plain_response JUndefined = False"
| "plain_response JNull = False"
| "plain_response (JArr xs) = False"
| "plain_response v = True"

text \<open>
  Decimal digits of a number, as a template literal prints it when its magnitude is below
  \<open>10^21\<close>. From there on JavaScript prints an exponent form whose digits the
  language leaves to the engine, so that text is a parameter of the model (\<open>big\<close> in
  \<open>to_string\<close>).
\<close>

fun show_nat :: "nat \<Rightarrow> string" where
  "show_nat n =
     (if n < 10 then [''0123456789'' ! n]
      else show_nat (n div 10) @ [''0123456789'' ! (n mod 10)])"

declare show_nat.simps [simp del]

definition show_int :: "int \<Rightarrow> string" where
  "show_int i = (if i < 0 then CHR ''-'' # show_nat (nat (- i)) else show_nat (nat i))"

text \<open>\<open>parts.join(sep)\<close>.\<close>

fun join :: "string \<Rightarrow> string list \<Rightarrow> string" where
  "join sep [] = []"
| "join sep [x] = x"
| "join sep (x # y # ys) = x @ sep @ join sep (y # ys)"

text \<open>
  The string a template literal \<open>`${v}`\<close> puts in for \<open>v\<close>: an array prints its
  elements joined by commas, with nothing for \<open>null\<close> and \<open>undefined\<close> elements, and an
  object prints as \<open>[object Object]\<close>.
\<close>

fun to_string :: "(int \<Rightarrow> string) \<Rightarrow> json \<Rightarrow> string" where
  "to_string big JUndefined = ''undefined''"
| "to_string big JNull = ''null''"
| "to_string big (JBool b) = (if b then ''true'' else ''false'')"
| "to_string big (JNum n) = (if \<bar>n\<bar> < 10 ^ 21 then show_int n else big n)"
| "to_string big (JStr s) = s"
| "to_string big (JArr xs) =
     join '','' (map (\<lambda>x. if x = JNull \<or> x = JUndefined then [] else to_string big x) xs)"
| "to_string big (JObj kvs) = ''[object Object]''"

text \<open>\<open>s.includes(sub)\<close>.\<close>

fun str_includes :: "string \<Rightarrow> string \<Rightarrow> bool" where
  "str_includes [] sub = (sub = [])"
| "str_includes (c # cs) sub = (take (length sub) (c # cs) = sub \<or> str_includes cs sub)"

section \<open>Errors and promises\<close>

text \<open>
  A thrown value. \<open>TypedError(message, type)\<close> sets both fields; an error of the
  runtime itself (a TypeError from reading a property of \<open>null\<close>) has no \<open>type\<close>
  property, so \<open>error.type\<close> is \<open>undefined\<close>: \<open>None\<close>. \<open>tx_context\<close> is the
  \<open>ErrorContext\<close> (a transaction hash) that \<open>signAndSendTransaction\<close> attaches.
\<close>

record js_error =
  message :: string
  etype :: "string option"
  tx_context :: "string option"

definition TypedError :: "string \<Rightarrow> string \<Rightarrow> js_error" where
  "TypedError msg ty = \<lparr>message = msg, etype = Some ty, tx_context = None\<rparr>"

definition type_error :: js_error where
  "type_error = \<lparr>message = ''TypeError: Cannot read properties of null or undefined'',
                  etype = None, tx_context = None\<rparr>"

text \<open>
  What awaiting a promise gives: a value, a thrown error, or nothing at all when the
  promise never settles.
\<close>

datatype 'a promise = Resolved 'a | Rejected js_error | Pending

section \<open>Backoff executor\<close>

text \<open>
  Modelled from the spec: \<open>utils/exponential-backoff\<close> is imported by both callers
  and is not among the sources. Section 4.1: the executor invokes \<open>attemptFn\<close>; each call
  returns a final result, the retry-signal, or raises; a raise propagates at once, the
  executor retries only on the retry-signal, and after \<open>maxAttempts\<close> retry-signals it
  returns the retry-signal itself. The retry-signal of both callers is \<open>null\<close> (their
  callbacks \<open>return null\<close>): \<open>None\<close> here. The waits between attempts are real time and
  change no state; \<open>backoff_delay\<close> gives the spec's schedule.
\<close>

primrec backoff_attempts ::
  "nat \<Rightarrow> ('s \<Rightarrow> 'a option promise \<times> 's) \<Rightarrow> 's \<Rightarrow> 'a option promise \<times> 's" where
  "backoff_attempts 0 attemptFn s = (Resolved None, s)"
| "backoff_attempts (Suc n) attemptFn s =
     (case attemptFn s of
        (Resolved None, s') \<Rightarrow> backoff_attempts n attemptFn s'
      | (Resolved (Some r), s') \<Rightarrow> (Resolved (Some r), s')
      | (Rejected e, s') \<Rightarrow> (Rejected e, s')
      | (Pending, s') \<Rightarrow> (Pending, s'))"

definition exponentialBackoff ::
  "rat \<Rightarrow> nat \<Rightarrow> rat \<Rightarrow> ('s \<Rightarrow> 'a option promise \<times> 's) \<Rightarrow> 's \<Rightarrow> 'a option promise \<times> 's" where
  "exponentialBackoff initialDelay maxAttempts multiplier attemptFn s =
     backoff_attempts maxAttempts attemptFn s"

definition backoff_delay :: "rat \<Rightarrow> rat \<Rightarrow> nat \<Rightarrow> rat" where
  "backoff_delay initialDelay multiplier attempt = initialDelay * multiplier ^ (attempt - 1)"

section \<open>Data model\<close>

text \<open>
  The outcome of a transaction as the provider returns it (\<open>FinalExecutionOutcome\<close>):
  the code reads \<open>status\<close>, \<open>transaction_outcome\<close> and \<open>receipts_outcome\<close>, and of each
  outcome its \<open>id\<close> and the \<open>logs\<close>, \<open>receipt_ids\<close> and \<open>status\<close> of its \<open>outcome\<close>.
  A status is a string or an object, which the code tells apart with \<open>typeof\<close>.
\<close>

record execution_outcome =
  logs :: "string list"
  receipt_ids :: "string list"
  status :: json

record outcome_with_id =
  outcome_id :: string
  outcome :: execution_outcome

record final_execution_outcome =
  final_status :: json
  transaction_outcome :: outcome_with_id
  receipts_outcome :: "outcome_with_id list"

text \<open>
  \<open>utils/rpc_errors\<close> is imported and is not among the sources. No claim depends on
  what its three functions compute, so they are parameters of the model: the general
  classifier \<open>parseRpcError\<close>, its wrapper \<open>parseResultError\<close> for a failed final
  outcome, and \<open>getErrorTypeFromErrorMessage\<close> for an opaque message. With them comes
  the one parameter that is the engine's: \<open>exponent_form\<close>, the text of a number of
  magnitude \<open>10^21\<close> and above.
\<close>

record rpc_errors =
  parseRpcError :: "json \<Rightarrow> js_error"
  parseResultError :: "final_execution_outcome \<Rightarrow> js_error"
  getErrorTypeFromErrorMessage :: "json \<Rightarrow> string"
  exponent_form :: "int \<Rightarrow> string"

section \<open>RPC request channel: \<open>WalletRpcProvider.sendJsonRpc\<close>\<close>

definition REQUEST_RETRY_NUMBER :: nat where "REQUEST_RETRY_NUMBER = 12"
definition REQUEST_RETRY_WAIT :: rat where "REQUEST_RETRY_WAIT = 500"
definition REQUEST_RETRY_WAIT_BACKOFF :: rat where "REQUEST_RETRY_WAIT_BACKOFF = 3 / 2"

record request_params =
  jsonrpc :: string
  req_id :: nat
  rpc_method :: string
  params :: json

text \<open>
  What the channel reads and writes: the process-wide counter \<open>_nextId\<close>, the provider's
  \<open>_account\<close>, the environment variable \<open>NEAR_NO_LOGS\<close>, the console (each
  \<open>console.warn(text, params)\<close> in order) and the wallet proxy, whose state is its own.
  The proxy's \<open>request\<close> is a parameter of the model: from a request and the proxy's
  state to what the awaited promise gives and the proxy's next state.
\<close>

record 'p provider_state =
  nextId :: nat
  account :: string
  NEAR_NO_LOGS :: "string option"
  warnings :: "(string \<times> json) list"
  proxy :: 'p

text \<open>\<open>!process.env['NEAR_NO_LOGS']\<close> is false when the variable is a non-empty string.\<close>

definition logs_suppressed :: "string option \<Rightarrow> bool" where
  "logs_suppressed v = (case v of None \<Rightarrow> False | Some x \<Rightarrow> x \<noteq> [])"

text \<open>
  Lines 457 to 475: the error thrown for a response whose \<open>error\<close> is truthy. An
  \<open>error.data\<close> of type object with string \<open>error_message\<close> and \<open>error_type\<close> is the old
  format; any other object goes to \<open>parseRpcError\<close>; \<open>null\<close> is an object to \<open>typeof\<close>
  and reading its \<open>error_message\<close> throws.
\<close>

definition classify_error :: "rpc_errors \<Rightarrow> json \<Rightarrow> js_error" where
  "classify_error E error =
     (let data = read_prop error ''data'' in
      if typeof data = ''object'' then
        (case (get_prop data ''error_message'', get_prop data ''error_type'') of
           (Some (JStr error_message), Some (JStr error_type)) \<Rightarrow>
             TypedError error_message error_type
         | (Some _, Some _) \<Rightarrow> parseRpcError E data
         | _ \<Rightarrow> type_error)
      else
        (let errorMessage =
               ''['' @ to_string (exponent_form E) (read_prop error ''code'') @ ''] ''
               @ to_string (exponent_form E) (read_prop error ''message'') @ '': ''
               @ to_string (exponent_form E) data
         in if data = JStr ''Timeout'' \<or> str_includes errorMessage ''Timeout error''
                 \<or> str_includes errorMessage ''query has timed out''
            then TypedError errorMessage ''TimeoutError''
            else TypedError errorMessage (getErrorTypeFromErrorMessage E data)))"

text \<open>
  Lines 445 to 478, the body of the \<open>try\<close>: take the next request id, await the proxy,
  and read the response. \<open>txStatusString\<close> is the follow-up query (a nested
  \<open>sendJsonRpc\<close>), passed in so that the nesting can be counted below.
\<close>

definition rpc_try ::
  "rpc_errors \<Rightarrow> (request_params \<Rightarrow> 'p \<Rightarrow> json promise \<times> 'p)
   \<Rightarrow> (json \<Rightarrow> string \<Rightarrow> 'p provider_state \<Rightarrow> json option promise \<times> 'p provider_state)
   \<Rightarrow> string \<Rightarrow> json \<Rightarrow> 'p provider_state \<Rightarrow> json option promise \<times> 'p provider_state" where
  "rpc_try E request txStatusString method_name ps s =
     (let req = \<lparr>jsonrpc = ''2.0'', req_id = nextId s, rpc_method = method_name, params = ps\<rparr>;
          s1 = s\<lparr>nextId := nextId s + 1\<rparr>
      in case request req (proxy s1) of
           (Pending, p) \<Rightarrow> (Pending, s1\<lparr>proxy := p\<rparr>)
         | (Rejected e, p) \<Rightarrow> (Rejected e, s1\<lparr>proxy := p\<rparr>)
         | (Resolved response, p) \<Rightarrow>
             (let s2 = s1\<lparr>proxy := p\<rparr>
              in case response of
                   JArr xs \<Rightarrow>
                     txStatusString (case xs of [] \<Rightarrow> JUndefined | x # _ \<Rightarrow> x) (account s2) s2
                 | _ \<Rightarrow>
                     (case get_prop response ''error'' of
                        None \<Rightarrow> (Rejected type_error, s2)
                      | Some error \<Rightarrow>
                          if truthy error then (Rejected (classify_error E error), s2)
                          else (Resolved (Some response), s2))))"

text \<open>\<open>console.warn(text, arg)\<close>.\<close>

definition console_warn :: "string \<Rightarrow> json \<Rightarrow> 'p provider_state \<Rightarrow> 'p provider_state" where
  "console_warn text arg s = s\<lparr>warnings := warnings s @ [(text, arg)]\<rparr>"

text \<open>Lines 479 to 488, the \<open>catch\<close>: a TimeoutError becomes the retry-signal.\<close>

definition rpc_attempt ::
  "rpc_errors \<Rightarrow> (request_params \<Rightarrow> 'p \<Rightarrow> json promise \<times> 'p)
   \<Rightarrow> (json \<Rightarrow> string \<Rightarrow> 'p provider_state \<Rightarrow> json option promise \<times> 'p provider_state)
   \<Rightarrow> string \<Rightarrow> json \<Rightarrow> 'p provider_state \<Rightarrow> json option promise \<times> 'p provider_state" where
  "rpc_attempt E request txStatusString method_name ps s =
     (case rpc_try E request txStatusString method_name ps s of
        (Rejected error, s') \<Rightarrow>
          if etype error = Some ''TimeoutError''
          then (Resolved None,
                if logs_suppressed (NEAR_NO_LOGS s') then s'
                else console_warn (''Retrying request to '' @ method_name @ '' as it has timed out'') ps s')
          else (Rejected error, s')
      | (r, s') \<Rightarrow> (r, s'))"

text \<open>
  Lines 490 to 499: what \<open>sendJsonRpc\<close> does with the executor's answer. The result is
  thrown away for \<open>RetriesExceeded\<close> when \<open>typeof result === 'undefined'\<close>.
\<close>

definition check_result ::
  "string \<Rightarrow> json option promise \<times> 's \<Rightarrow> json option promise \<times> 's" where
  "check_result method_name r =
     (case r of
        (Resolved result, s') \<Rightarrow>
          if result = Some JUndefined
          then (Rejected (TypedError (''Exceeded '' @ show_nat REQUEST_RETRY_NUMBER
                            @ '' attempts for request to '' @ method_name @ ''.'') ''RetriesExceeded''), s')
          else (Resolved result, s')
      | (Rejected e, s') \<Rightarrow> (Rejected e, s')
      | (Pending, s') \<Rightarrow> (Pending, s'))"

text \<open>
  \<open>sendJsonRpc\<close>, lines 442 to 500. A response that is an array starts a nested
  \<open>sendJsonRpc('tx', [txHash, accountId])\<close> inside the attempt, and a proxy that answers
  every request with an array nests without end, so that the promise never settles. The
  first argument bounds the nesting: \<open>sendJsonRpc d\<close> follows \<open>d\<close> levels of calls and is
  \<open>Pending\<close> where the code would go deeper.
\<close>

primrec sendJsonRpc ::
  "nat \<Rightarrow> rpc_errors \<Rightarrow> (request_params \<Rightarrow> 'p \<Rightarrow> json promise \<times> 'p)
   \<Rightarrow> string \<Rightarrow> json \<Rightarrow> 'p provider_state \<Rightarrow> json option promise \<times> 'p provider_state" where
  "sendJsonRpc 0 E request method_name ps s = (Pending, s)"
| "sendJsonRpc (Suc d) E request method_name ps s =
     check_result method_name
       (exponentialBackoff REQUEST_RETRY_WAIT REQUEST_RETRY_NUMBER REQUEST_RETRY_WAIT_BACKOFF
          (rpc_attempt E request
             (\<lambda>txHash accountId. sendJsonRpc d E request ''tx'' (JArr [txHash, JStr accountId]))
             method_name ps) s)"

text \<open>Lines 213 to 215: \<open>txStatusString\<close>, at nesting depth \<open>d\<close>.\<close>

definition txStatusString ::
  "nat \<Rightarrow> rpc_errors \<Rightarrow> (request_params \<Rightarrow> 'p \<Rightarrow> json promise \<times> 'p)
   \<Rightarrow> json \<Rightarrow> string \<Rightarrow> 'p provider_state \<Rightarrow> json option promise \<times> 'p provider_state" where
  "txStatusString d E request txHash accountId =
     sendJsonRpc d E request ''tx'' (JArr [txHash, JStr accountId])"

section \<open>Access key cache and submission engine: \<open>Account\<close>\<close>

definition TX_NONCE_RETRY_NUMBER :: nat where "TX_NONCE_RETRY_NUMBER = 12"
definition TX_NONCE_RETRY_WAIT :: rat where "TX_NONCE_RETRY_WAIT = 500"
definition TX_NONCE_RETRY_WAIT_BACKOFF :: rat where "TX_NONCE_RETRY_WAIT_BACKOFF = 3 / 2"

text \<open>
  The access key as the node reports it (\<open>AccessKeyView\<close>). The nonce is the chain's
  counter, held in a JavaScript number: a double whose value is an integer.
\<close>

record access_key_view =
  nonce :: int
  permission :: json

text \<open>
  \<open>++n\<close> on such a number adds one and rounds to the nearest double, to the even
  significand on a tie. From \<open>-2^53\<close> up to \<open>2^53 - 1\<close> the sum is exact. From \<open>2^53\<close>
  up to \<open>2^54\<close> in magnitude the doubles are the even integers and the sum lies half-way
  between two of them: it goes to the one that is a multiple of four. Beyond \<open>2^54\<close> in
  magnitude the doubles are four and more apart and the sum rounds back to \<open>n\<close>.
\<close>

definition exact_range :: "int \<Rightarrow> bool" where
  "exact_range n \<longleftrightarrow> - 9007199254740992 \<le> n \<and> n < 9007199254740992"

definition js_increment :: "int \<Rightarrow> int" where
  "js_increment n =
     (if exact_range n then n + 1
      else if \<bar>n\<bar> < 18014398509481984 \<and> \<bar>n\<bar> mod 4 = 2 then n + 2
      else n)"

text \<open>
  A signed transaction, of which the code reads \<open>transaction.publicKey\<close> (a public key
  is held as the text \<open>toString()\<close> gives) and \<open>transaction.receiverId\<close>.
\<close>

record transaction =
  signerId :: string
  publicKey :: string
  tx_nonce :: int
  receiverId :: string
  actions :: "json list"
  blockHash :: string

record signed_transaction =
  transaction :: transaction
  signature :: string

text \<open>
  The collaborators behind \<open>this.connection\<close> and the \<open>transaction\<close> module, none of
  them among the sources and each opaque to the engine: they are parameters of the model.
  Each takes the state \<open>'w\<close> of the world outside the account (signer, node, network)
  and gives what the awaited promise gives and the next state of that world.
  \<^item> \<open>getPublicKey accountId networkId\<close>: the signer's key, or \<open>null\<close>;
  \<^item> \<open>query accountId publicKey\<close>: the provider's \<open>view_access_key\<close> query;
  \<^item> \<open>block\<close>: \<open>header.hash\<close> of the provider's block at finality \<open>final\<close>;
  \<^item> \<open>tx_signTransaction receiverId nonce actions blockHash accountId networkId\<close>:
    \<open>signTransaction\<close> of the \<open>transaction\<close> module, giving \<open>[txHash, signedTx]\<close>
    (the hash is held as the text \<open>baseEncode\<close> gives);
  \<^item> \<open>sendTransaction signedTx\<close>: the provider's broadcast-and-await-commit.
  \<open>signer_text\<close> is what \<open>`${this.connection.signer}`\<close> prints.
\<close>

record 'w connection =
  networkId :: string
  signer_text :: string
  getPublicKey :: "string \<Rightarrow> string \<Rightarrow> 'w \<Rightarrow> string option promise \<times> 'w"
  query :: "string \<Rightarrow> string \<Rightarrow> 'w \<Rightarrow> access_key_view promise \<times> 'w"
  block :: "'w \<Rightarrow> string promise \<times> 'w"
  tx_signTransaction ::
    "string \<Rightarrow> int \<Rightarrow> json list \<Rightarrow> string \<Rightarrow> string \<Rightarrow> string \<Rightarrow> 'w
     \<Rightarrow> (string \<times> signed_transaction) promise \<times> 'w"
  sendTransaction :: "signed_transaction \<Rightarrow> 'w \<Rightarrow> final_execution_outcome promise \<times> 'w"

text \<open>One entry of the flattened report, lines 138 to 142.\<close>

record flat_log =
  receiptIds :: "string list"
  log_lines :: "string list"
  failure :: "js_error option"

text \<open>
  What an account does that can be seen from outside, in program order: a warning of
  \<open>logWarning\<close>, a \<open>delete\<close> of a cache entry (line 120), the nonce handed to the
  \<open>transaction\<close> module for signing together with the cache object it was counted on
  (lines 92 and 93), and an entry printed by \<open>printLogsAndFailures\<close> for a contract.
\<close>

datatype effect =
    Warned string
  | Deleted string
  | Issued nat int
  | Printed string flat_log

text \<open>
  An \<open>Account\<close>. The cache \<open>accessKeyByPublicKeyCache\<close> holds references: an access
  key is an object that \<open>++accessKey.nonce\<close> changes in place and that stays alive, for
  whoever holds it, after its cache entry is deleted. So the objects are in a store
  (\<open>heap\<close>, with \<open>next_ref\<close> the next unused reference) and the cache maps the text of a
  public key to a reference.
\<close>

record 'w account_state =
  accountId :: string
  accessKeyByPublicKeyCache :: "string \<rightharpoonup> nat"
  heap :: "nat \<Rightarrow> access_key_view"
  next_ref :: nat
  effects :: "effect list"
  env_NEAR_NO_LOGS :: "string option"
  world :: 'w

text \<open>
  Modelled from the spec: \<open>logWarning\<close> of \<open>utils/errors\<close> is imported and is not
  among the sources. Sections 4.3 and 4.5: a warning, suppressible as every diagnostic
  emission is.
\<close>

definition logWarning :: "string \<Rightarrow> 'w account_state \<Rightarrow> 'w account_state" where
  "logWarning text s =
     (if logs_suppressed (env_NEAR_NO_LOGS s) then s
      else s\<lparr>effects := effects s @ [Warned text]\<rparr>)"

text \<open>
  Lines 179 to 201 of \<open>findAccessKey\<close>: what happens once the awaited network query
  has settled, in the state the account has by then. An object in the cache is truthy,
  so line 190 asks whether the key is cached.
\<close>

definition findAccessKey_resume ::
  "string \<Rightarrow> access_key_view promise \<Rightarrow> 'w account_state
   \<Rightarrow> (string \<times> nat) option promise \<times> 'w account_state" where
  "findAccessKey_resume pk reply s =
     (case reply of
        Resolved accessKey \<Rightarrow>
          (case accessKeyByPublicKeyCache s pk of
             Some cached \<Rightarrow> (Resolved (Some (pk, cached)), s)
           | None \<Rightarrow>
               (Resolved (Some (pk, next_ref s)),
                s\<lparr>heap := (heap s)(next_ref s := accessKey),
                  next_ref := next_ref s + 1,
                  accessKeyByPublicKeyCache := (accessKeyByPublicKeyCache s)(pk \<mapsto> next_ref s)\<rparr>))
      | Rejected e \<Rightarrow>
          if etype e = Some ''AccessKeyDoesNotExist'' then (Resolved None, s)
          else (Rejected e, s)
      | Pending \<Rightarrow> (Pending, s))"

text \<open>
  \<open>findAccessKey\<close>, lines 169 to 202, when nothing else runs between its steps. The
  result is \<open>null\<close> or the public key with the reference of its access key.
\<close>

definition findAccessKey ::
  "'w connection \<Rightarrow> string \<Rightarrow> json list \<Rightarrow> 'w account_state
   \<Rightarrow> (string \<times> nat) option promise \<times> 'w account_state" where
  "findAccessKey c rid acts s =
     (case getPublicKey c (accountId s) (networkId c) (world s) of
        (Pending, w) \<Rightarrow> (Pending, s\<lparr>world := w\<rparr>)
      | (Rejected e, w) \<Rightarrow> (Rejected e, s\<lparr>world := w\<rparr>)
      | (Resolved None, w) \<Rightarrow> (Resolved None, s\<lparr>world := w\<rparr>)
      | (Resolved (Some pk), w) \<Rightarrow>
          (case accessKeyByPublicKeyCache s pk of
             Some cachedAccessKey \<Rightarrow> (Resolved (Some (pk, cachedAccessKey)), s\<lparr>world := w\<rparr>)
           | None \<Rightarrow>
               (case query c (accountId s) pk w of
                  (reply, w') \<Rightarrow> findAccessKey_resume pk reply (s\<lparr>world := w'\<rparr>))))"

text \<open>The error of line 87.\<close>

definition key_not_found :: "'w connection \<Rightarrow> 'w account_state \<Rightarrow> js_error" where
  "key_not_found c s =
     TypedError (''Can not sign transactions for account '' @ accountId s @ '' on network ''
                 @ networkId c @ '', no matching key pair found in '' @ signer_text c @ ''.'')
       ''KeyNotFound''"

text \<open>\<open>signTransaction\<close>, lines 84 to 94.\<close>

definition signTransaction ::
  "'w connection \<Rightarrow> string \<Rightarrow> json list \<Rightarrow> 'w account_state
   \<Rightarrow> (string \<times> signed_transaction) promise \<times> 'w account_state" where
  "signTransaction c rid acts s =
     (case findAccessKey c rid acts s of
        (Pending, s1) \<Rightarrow> (Pending, s1)
      | (Rejected e, s1) \<Rightarrow> (Rejected e, s1)
      | (Resolved None, s1) \<Rightarrow> (Rejected (key_not_found c s1), s1)
      | (Resolved (Some (pk, accessKey)), s1) \<Rightarrow>
          (case block c (world s1) of
             (Pending, w) \<Rightarrow> (Pending, s1\<lparr>world := w\<rparr>)
           | (Rejected e, w) \<Rightarrow> (Rejected e, s1\<lparr>world := w\<rparr>)
           | (Resolved hash, w) \<Rightarrow>
               (let n = js_increment (nonce (heap s1 accessKey));
                    s2 = s1\<lparr>world := w,
                           heap := (heap s1)(accessKey := (heap s1 accessKey)\<lparr>nonce := n\<rparr>),
                           effects := effects s1 @ [Issued accessKey n]\<rparr>
                in case tx_signTransaction c rid n acts hash (accountId s2) (networkId c) w of
                     (r, w') \<Rightarrow> (r, s2\<lparr>world := w'\<rparr>))))"

text \<open>
  Lines 112 to 129: one attempt of the submission, the callback handed to the executor.
  A successful attempt hands back the result together with the transaction it signed,
  which the code keeps in \<open>signedTx\<close> for the lines after the executor.
\<close>

definition tx_attempt ::
  "'w connection \<Rightarrow> string \<Rightarrow> json list \<Rightarrow> 'w account_state
   \<Rightarrow> (final_execution_outcome \<times> signed_transaction) option promise \<times> 'w account_state" where
  "tx_attempt c rid acts s =
     (case signTransaction c rid acts s of
        (Pending, s1) \<Rightarrow> (Pending, s1)
      | (Rejected e, s1) \<Rightarrow> (Rejected e, s1)
      | (Resolved (txHash, signedTx), s1) \<Rightarrow>
          (case sendTransaction c signedTx (world s1) of
             (Resolved result, w) \<Rightarrow> (Resolved (Some (result, signedTx)), s1\<lparr>world := w\<rparr>)
           | (Pending, w) \<Rightarrow> (Pending, s1\<lparr>world := w\<rparr>)
           | (Rejected error, w) \<Rightarrow>
               if etype error = Some ''InvalidNonce'' then
                 (let s2 = logWarning (''Retrying transaction '' @ rid @ '':'' @ txHash
                                        @ '' with new nonce.'') (s1\<lparr>world := w\<rparr>)
                  in (Resolved None,
                      s2\<lparr>accessKeyByPublicKeyCache :=
                            (accessKeyByPublicKeyCache s2)(publicKey (transaction signedTx) := None),
                         effects := effects s2 @ [Deleted (publicKey (transaction signedTx))]\<rparr>))
               else if etype error = Some ''Expired'' then
                 (Resolved None,
                  logWarning (''Retrying transaction '' @ rid @ '':'' @ txHash
                              @ '' due to expired block hash'') (s1\<lparr>world := w\<rparr>))
               else (Rejected (error\<lparr>tx_context := Some txHash\<rparr>), s1\<lparr>world := w\<rparr>)))"

text \<open>
  Lines 135 to 146, one step of the \<open>reduce\<close>: the entries (none or one) that an
  outcome adds to the report. Reading \<open>Failure\<close> of a status that is \<open>null\<close> or
  \<open>undefined\<close> throws a TypeError: \<open>None\<close>.
\<close>

definition flat_entry :: "rpc_errors \<Rightarrow> outcome_with_id \<Rightarrow> json \<Rightarrow> flat_log" where
  "flat_entry E it f =
     \<lparr>receiptIds = receipt_ids (outcome it),
      log_lines = logs (outcome it),
      failure = (if typeof f \<noteq> ''undefined'' then Some (parseRpcError E f) else None)\<rparr>"

definition flat_step :: "rpc_errors \<Rightarrow> outcome_with_id \<Rightarrow> flat_log list option" where
  "flat_step E it =
     (let st = status (outcome it) in
      if logs (outcome it) \<noteq> [] then
        (case get_prop st ''Failure'' of
           None \<Rightarrow> None
         | Some f \<Rightarrow> Some [flat_entry E it f])
      else if typeof st = ''object'' then
        (case get_prop st ''Failure'' of
           None \<Rightarrow> None
         | Some f \<Rightarrow> if typeof f = ''object'' then Some [flat_entry E it f] else Some [])
      else Some [])"

fun flat_reduce ::
  "rpc_errors \<Rightarrow> outcome_with_id list \<Rightarrow> flat_log list \<Rightarrow> flat_log list option" where
  "flat_reduce E [] acc = Some acc"
| "flat_reduce E (it # rest) acc =
     (case flat_step E it of
        None \<Rightarrow> None
      | Some entries \<Rightarrow> flat_reduce E rest (acc @ entries))"

definition flatLogs :: "rpc_errors \<Rightarrow> final_execution_outcome \<Rightarrow> flat_log list option" where
  "flatLogs E result = flat_reduce E (transaction_outcome result # receipts_outcome result) []"

text \<open>\<open>printLogsAndFailures\<close>, lines 59 to 69: the entries go to the console.\<close>

definition printLogsAndFailures ::
  "string \<Rightarrow> flat_log list \<Rightarrow> 'w account_state \<Rightarrow> 'w account_state" where
  "printLogsAndFailures contractId results s =
     (if logs_suppressed (env_NEAR_NO_LOGS s) then s
      else s\<lparr>effects := effects s @ map (Printed contractId) results\<rparr>)"

text \<open>
  Lines 148 to 156: the error thrown for the top-level status, if any. \<open>Some (Some e)\<close>
  throws \<open>e\<close>, \<open>Some None\<close> throws nothing, \<open>None\<close> is the TypeError of reading a
  property of \<open>null\<close>. The test of line 150 is by truthiness.
\<close>

definition status_failure :: "rpc_errors \<Rightarrow> final_execution_outcome \<Rightarrow> js_error option option" where
  "status_failure E result =
     (if typeof (final_status result) = ''object'' then
        (case get_prop (final_status result) ''Failure'' of
           None \<Rightarrow> None
         | Some f \<Rightarrow>
             if typeof f = ''object'' then
               (case (get_prop f ''error_message'', get_prop f ''error_type'') of
                  (Some error_message, Some error_type) \<Rightarrow>
                    if truthy error_message \<and> truthy error_type
                    then Some (Some (TypedError
                           (''Transaction '' @ outcome_id (transaction_outcome result)
                            @ '' failed. '' @ to_string (exponent_form E) error_message)
                           (to_string (exponent_form E) error_type)))
                    else Some (Some (parseResultError E result))
                | _ \<Rightarrow> None)
             else Some None)
      else Some None)"

text \<open>Lines 135 to 158: what follows the executor when it hands back a result.\<close>

definition report_outcome ::
  "rpc_errors \<Rightarrow> final_execution_outcome \<times> signed_transaction \<Rightarrow> 'w account_state
   \<Rightarrow> final_execution_outcome promise \<times> 'w account_state" where
  "report_outcome E rs s =
     (case rs of (result, signedTx) \<Rightarrow>
        (case flatLogs E result of
           None \<Rightarrow> (Rejected type_error, s)
         | Some flat \<Rightarrow>
             (let s1 = printLogsAndFailures (receiverId (transaction signedTx)) flat s
              in case status_failure E result of
                   None \<Rightarrow> (Rejected type_error, s1)
                 | Some (Some e) \<Rightarrow> (Rejected e, s1)
                 | Some None \<Rightarrow> (Resolved result, s1))))"

text \<open>\<open>signAndSendTransactionV2\<close>, lines 108 to 159.\<close>

definition signAndSendTransactionV2 ::
  "'w connection \<Rightarrow> rpc_errors \<Rightarrow> string \<Rightarrow> json list \<Rightarrow> 'w account_state
   \<Rightarrow> final_execution_outcome promise \<times> 'w account_state" where
  "signAndSendTransactionV2 c E rid acts s =
     (case exponentialBackoff TX_NONCE_RETRY_WAIT TX_NONCE_RETRY_NUMBER
             TX_NONCE_RETRY_WAIT_BACKOFF (tx_attempt c rid acts) s of
        (Pending, s') \<Rightarrow> (Pending, s')
      | (Rejected e, s') \<Rightarrow> (Rejected e, s')
      | (Resolved None, s') \<Rightarrow>
          (Rejected (TypedError
             (''nonce retries exceeded for transaction. This usually means there are ''
              @ ''too many parallel requests with the same access key.'')
             ''RetriesExceeded''), s')
      | (Resolved (Some rs), s') \<Rightarrow> report_outcome E rs s')"

text \<open>A run of signing attempts, one after the other, whatever each of them gives.\<close>

fun sign_all ::
  "'w connection \<Rightarrow> (string \<times> json list) list \<Rightarrow> 'w account_state \<Rightarrow> 'w account_state" where
  "sign_all c [] s = s"
| "sign_all c ((rid, acts) # rest) s = sign_all c rest (snd (signTransaction c rid acts s))"

text \<open>The nonces issued on one cache object, and the keys deleted, in order.\<close>

fun issued :: "nat \<Rightarrow> effect list \<Rightarrow> int list" where
  "issued a [] = []"
| "issued a (Issued b n # es) = (if a = b then n # issued a es else issued a es)"
| "issued a (e # es) = issued a es"

fun deleted :: "effect list \<Rightarrow> string list" where
  "deleted [] = []"
| "deleted (Deleted pk # es) = pk # deleted es"
| "deleted (e # es) = deleted es"

text \<open>
  How a later nonce stands to an earlier one: it is not smaller, and it is greater when
  it is in the range where the increment is exact.
\<close>

definition rises :: "int \<Rightarrow> int \<Rightarrow> bool" where
  "rises x y \<longleftrightarrow> x \<le> y \<and> (exact_range y \<longrightarrow> x < y)"

text \<open>
  The invariant of the cache: every cached reference is in use, no nonce was issued on
  an unused reference, and the nonces issued on an object rise and end in the nonce the
  object holds.
\<close>

definition nonce_lineage :: "'w account_state \<Rightarrow> bool" where
  "nonce_lineage s \<longleftrightarrow>
     (\<forall>pk a. accessKeyByPublicKeyCache s pk = Some a \<longrightarrow> a < next_ref s)
   \<and> (\<forall>a. next_ref s \<le> a \<longrightarrow> issued a (effects s) = [])
   \<and> (\<forall>a. sorted_wrt rises (issued a (effects s)))
   \<and> (\<forall>a. issued a (effects s) \<noteq> [] \<longrightarrow> last (issued a (effects s)) = nonce (heap s a))"

section \<open>The report, as the specification words it\<close>

text \<open>
  The specification's wording of the flattened report, to compare \<open>flatLogs\<close> with: an
  outcome is reported when its logs are not empty or its status is an object with an
  object-valued \<open>Failure\<close> (object in the sense of \<open>typeof\<close>), and its entry carries
  its receipt ids, its logs and its parsed failure, or \<open>null\<close> without a \<open>Failure\<close>.
\<close>

definition spec_reported :: "outcome_with_id \<Rightarrow> bool" where
  "spec_reported it \<longleftrightarrow>
     logs (outcome it) \<noteq> []
     \<or> (typeof (status (outcome it)) = ''object''
        \<and> typeof (read_prop (status (outcome it)) ''Failure'') = ''object'')"

definition spec_entry :: "rpc_errors \<Rightarrow> outcome_with_id \<Rightarrow> flat_log" where
  "spec_entry E it =
     \<lparr>receiptIds = receipt_ids (outcome it),
      log_lines = logs (outcome it),
      failure = (if read_prop (status (outcome it)) ''Failure'' = JUndefined then None
                 else Some (parseRpcError E (read_prop (status (outcome it)) ''Failure'')))\<rparr>"

section \<open>Test doubles\<close>

text \<open>
  A proxy without state that answers every request with the node's timeout error, one
  that answers with an internal error, and a wallet proxy that answers a submission with
  the transaction hash in an array and a \<open>tx\<close> query with the outcome.
\<close>

definition timeout_response :: json where
  "timeout_response =
     JObj [(''error'', JObj [(''code'', JNum (- 32000)), (''message'', JStr ''Server error''),
                             (''data'', JStr ''Timeout'')])]"

definition timeout_proxy :: "request_params \<Rightarrow> unit \<Rightarrow> json promise \<times> unit" where
  "timeout_proxy req p = (Resolved timeout_response, p)"


definition tx_outcome :: json where
  "tx_outcome = JObj [(''status'', JObj [(''SuccessValue'', JStr [])])]"

definition hash_proxy :: "request_params \<Rightarrow> unit \<Rightarrow> json promise \<times> unit" where
  "hash_proxy req p =
     (if rpc_method req = ''tx'' then (Resolved tx_outcome, p)
      else (Resolved (JArr [JStr ''9FtHUFBQsZ2MG'']), p))"

text \<open>
  A wallet proxy that counts its requests. It answers the first submission with the
  transaction hash in an array, every \<open>tx\<close> query with the node's timeout error, and a
  submission that comes again with a result of its own.
\<close>

definition resending_proxy :: "request_params \<Rightarrow> nat \<Rightarrow> json promise \<times> nat" where
  "resending_proxy req n =
     (if rpc_method req = ''tx'' then (Resolved timeout_response, Suc n)
      else if n = 0 then (Resolved (JArr [JStr ''9FtHUFBQsZ2MG'']), Suc n)
      else (Resolved (JObj [(''result'', JNum 1)]), Suc n))"

definition counting0 :: "nat provider_state" where
  "counting0 = \<lparr>nextId = 123, account = ''alice.test'', NEAR_NO_LOGS = None,
                 warnings = [], proxy = 0\<rparr>"

definition legacy_proxy :: "request_params \<Rightarrow> unit \<Rightarrow> json promise \<times> unit" where
  "legacy_proxy req p =
     (Resolved (JObj [(''error'', JObj [(''code'', JNum (- 32000)),
        (''data'', JObj [(''error_message'', JStr ''m''), (''error_type'', JStr ''T'')])])]), p)"

definition no_classifier :: rpc_errors where
  "no_classifier =
     \<lparr>parseRpcError = (\<lambda>_. TypedError ''classified'' ''ServerError''),
      parseResultError = (\<lambda>_. TypedError ''classified'' ''ServerTransactionError''),
      getErrorTypeFromErrorMessage = (\<lambda>_. ''UntypedError''),
      exponent_form = (\<lambda>_. ''1e+21'')\<rparr>"

definition provider0 :: "unit provider_state" where
  "provider0 = \<lparr>nextId = 123, account = ''alice.test'', NEAR_NO_LOGS = None,
                warnings = [], proxy = ()\<rparr>"

text \<open>
  A signer with one key, a node that knows the key with nonce 5, and a provider that
  rejects a submission with each error of a script in turn and accepts once the script is
  used up. The script is the state of the world.
\<close>

definition test_key :: string where
  "test_key = ''ed25519:8hSHprDq2StXwMtNd43wDTXQYsjXcD4M''"

definition mock_sign ::
  "string \<Rightarrow> int \<Rightarrow> json list \<Rightarrow> string \<Rightarrow> string \<Rightarrow> string \<Rightarrow> js_error list
   \<Rightarrow> (string \<times> signed_transaction) promise \<times> js_error list" where
  "mock_sign rid n acts hash acc net w =
     (Resolved (''tx'' @ show_int n,
        \<lparr>transaction = \<lparr>signerId = acc, publicKey = test_key, tx_nonce = n,
                         receiverId = rid, actions = acts, blockHash = hash\<rparr>,
         signature = ''sig''\<rparr>), w)"

definition accepted :: final_execution_outcome where
  "accepted =
     \<lparr>final_status = JObj [(''SuccessValue'', JStr [])],
      transaction_outcome =
        \<lparr>outcome_id = ''tx'',
         outcome = \<lparr>logs = [], receipt_ids = [''r1''],
                    status = JObj [(''SuccessReceiptId'', JStr ''r1'')]\<rparr>\<rparr>,
      receipts_outcome =
        [\<lparr>outcome_id = ''r1'',
          outcome = \<lparr>logs = [], receipt_ids = [],
                     status = JObj [(''SuccessValue'', JStr [])]\<rparr>\<rparr>]\<rparr>"

definition mock_send ::
  "signed_transaction \<Rightarrow> js_error list \<Rightarrow> final_execution_outcome promise \<times> js_error list" where
  "mock_send tx w = (case w of [] \<Rightarrow> (Resolved accepted, []) | e # es \<Rightarrow> (Rejected e, es))"

definition mock_connection :: "js_error list connection" where
  "mock_connection =
     \<lparr>networkId = ''testnet'',
      signer_text = ''InMemorySigner'',
      getPublicKey = (\<lambda>acc net w. (Resolved (Some test_key), w)),
      query = (\<lambda>acc pk w. (Resolved \<lparr>nonce = 5, permission = JStr ''FullAccess''\<rparr>, w)),
      block = (\<lambda>w. (Resolved ''9fJcQ'', w)),
      tx_signTransaction = mock_sign,
      sendTransaction = mock_send\<rparr>"

text \<open>A signer without a key, and nodes whose access-key query fails.\<close>

definition keyless_connection :: "js_error list connection" where
  "keyless_connection = mock_connection\<lparr>getPublicKey := (\<lambda>acc net w. (Resolved None, w))\<rparr>"

definition failing_query_connection :: "js_error \<Rightarrow> js_error list connection" where
  "failing_query_connection e = mock_connection\<lparr>query := (\<lambda>acc pk w. (Rejected e, w))\<rparr>"

text \<open>A node that reports the nonce \<open>2^53\<close> for the key.\<close>

definition big_nonce_connection :: "js_error list connection" where
  "big_nonce_connection =
     mock_connection\<lparr>query :=
       (\<lambda>acc pk w. (Resolved \<lparr>nonce = 9007199254740992, permission = JStr ''FullAccess''\<rparr>, w))\<rparr>"

text \<open>A new \<open>Account\<close> in a world with the given script.\<close>

definition account0 :: "js_error list \<Rightarrow> js_error list account_state" where
  "account0 script =
     \<lparr>accountId = ''alice.test'',
      accessKeyByPublicKeyCache = Map.empty,
      heap = (\<lambda>_. \<lparr>nonce = 0, permission = JNull\<rparr>),
      next_ref = 0,
      effects = [],
      env_NEAR_NO_LOGS = None,
      world = script\<rparr>"

text \<open>
  Outcomes for the report: one with a logging receipt, a failed receipt and a silent one,
  and two whose top-level status is a failure in the old format, the second with an empty
  \<open>error_message\<close>.
\<close>

definition logged_outcome :: final_execution_outcome where
  "logged_outcome =
     \<lparr>final_status = JObj [(''SuccessValue'', JStr [])],
      transaction_outcome =
        \<lparr>outcome_id = ''tx'',
         outcome = \<lparr>logs = [], receipt_ids = [''r1''],
                    status = JObj [(''SuccessReceiptId'', JStr ''r1'')]\<rparr>\<rparr>,
      receipts_outcome =
        [\<lparr>outcome_id = ''r1'',
          outcome = \<lparr>logs = [''hello''], receipt_ids = [''r2''],
                     status = JObj [(''SuccessValue'', JStr [])]\<rparr>\<rparr>,
         \<lparr>outcome_id = ''r2'',
          outcome = \<lparr>logs = [], receipt_ids = [],
                     status = JObj [(''Failure'', JObj [(''ActionError'', JObj [])])]\<rparr>\<rparr>,
         \<lparr>outcome_id = ''r3'',
          outcome = \<lparr>logs = [], receipt_ids = [], status = JStr ''Unknown''\<rparr>\<rparr>]\<rparr>"

definition legacy_failure :: "string \<Rightarrow> string \<Rightarrow> final_execution_outcome" where
  "legacy_failure error_message error_type =
     accepted\<lparr>final_status :=
       JObj [(''Failure'', JObj [(''error_message'', JStr error_message),
                                 (''error_type'', JStr error_type)])]\<rparr>"

text \<open>A node that answers every submission with the given outcome.\<close>

definition node_returning :: "final_execution_outcome \<Rightarrow> js_error list connection" where
  "node_returning result = mock_connection\<lparr>sendTransaction := (\<lambda>tx w. (Resolved result, w))\<rparr>"

section \<open>Properties of the backoff executor and the channel\<close>

lemma backoff_reject_inv:
  "backoff_attempts n f s = (Rejected e, s') \<Longrightarrow> \<exists>t. f t = (Rejected e, s')"
proof (induction n arbitrary: s)
  case 0 then show ?case by simp
next
  case (Suc n)
  then show ?case
    by (auto split: prod.splits promise.splits option.splits)
qed

lemma backoff_some_inv:
  "backoff_attempts n f s = (Resolved (Some v), s') \<Longrightarrow> \<exists>t. f t = (Resolved (Some v), s')"
proof (induction n arbitrary: s)
  case 0 then show ?case by simp
next
  case (Suc n)
  then show ?case
    by (auto split: prod.splits promise.splits option.splits)
qed

lemma rpc_attempt_not_timeout:
  "rpc_attempt E request txs m ps s = (Rejected e, s') \<Longrightarrow> etype e \<noteq> Some ''TimeoutError''"
  by (auto simp: rpc_attempt_def split: prod.splits promise.splits if_splits)

lemma txStatusString_eta:
  "(\<lambda>txHash accountId. sendJsonRpc d E request ''tx'' (JArr [txHash, JStr accountId]))
     = txStatusString d E request"
  by (simp add: txStatusString_def fun_eq_iff)

lemma sendJsonRpc_Suc:
  "sendJsonRpc (Suc d) E request m ps s =
     check_result m
       (backoff_attempts REQUEST_RETRY_NUMBER
          (rpc_attempt E request (txStatusString d E request) m ps) s)"
  by (simp add: exponentialBackoff_def txStatusString_eta)

declare sendJsonRpc.simps(2) [simp del]

lemma sendJsonRpc_not_timeout:
  assumes a: "sendJsonRpc d E request m ps s = (Rejected e, s')"
  shows "etype e \<noteq> Some ''TimeoutError''"
proof (cases d)
  case 0 with a show ?thesis by simp
next
  case (Suc k)
  let ?f = "rpc_attempt E request (txStatusString k E request) m ps"
  obtain r t where rt: "backoff_attempts REQUEST_RETRY_NUMBER ?f s = (r, t)" by (cases "backoff_attempts REQUEST_RETRY_NUMBER ?f s")
  show ?thesis
  proof (cases r)
    case (Resolved x)
    with a Suc rt show ?thesis
      by (auto simp: sendJsonRpc_Suc check_result_def TypedError_def split: if_splits)
  next
    case (Rejected e')
    with a Suc rt have "e' = e" "t = s'" by (simp_all add: sendJsonRpc_Suc check_result_def)
    with rt Rejected have "backoff_attempts REQUEST_RETRY_NUMBER ?f s = (Rejected e, s')"
      by simp
    from backoff_reject_inv[OF this] obtain u where "?f u = (Rejected e, s')" ..
    then show ?thesis by (rule rpc_attempt_not_timeout)
  next
    case Pending
    with a Suc rt show ?thesis by (simp add: sendJsonRpc_Suc check_result_def)
  qed
qed

lemma rpc_try_plain:
  assumes nested: "\<And>h a t v t'. txs h a t = (Resolved (Some v), t') \<Longrightarrow> plain_response v"
  assumes r: "rpc_try E request txs m ps s = (Resolved (Some v), s')"
  shows "plain_response v"
proof -
  let ?req = "\<lparr>jsonrpc = ''2.0'', req_id = nextId s, rpc_method = m, params = ps\<rparr>"
  obtain r p where rp: "request ?req (proxy (s\<lparr>nextId := nextId s + 1\<rparr>)) = (r, p)"
    by (cases "request ?req (proxy (s\<lparr>nextId := nextId s + 1\<rparr>))")
  show ?thesis
  proof (cases r)
    case (Resolved response)
    show ?thesis
    proof (cases response)
      case (JArr xs)
      with rp Resolved r show ?thesis by (auto simp: rpc_try_def Let_def dest: nested)
    qed (use rp Resolved r in \<open>auto simp: rpc_try_def Let_def split: option.splits if_splits\<close>)
  qed (use rp r in \<open>simp_all add: rpc_try_def Let_def\<close>)
qed

lemma rpc_attempt_plain:
  assumes nested: "\<And>h a t v t'. txs h a t = (Resolved (Some v), t') \<Longrightarrow> plain_response v"
  assumes r: "rpc_attempt E request txs m ps s = (Resolved (Some v), s')"
  shows "plain_response v"
proof -
  obtain r t where rt: "rpc_try E request txs m ps s = (r, t)"
    by (cases "rpc_try E request txs m ps s")
  with r have "rpc_try E request txs m ps s = (Resolved (Some v), s')"
    by (cases r) (auto simp: rpc_attempt_def split: if_splits)
  then show ?thesis by (rule rpc_try_plain[rotated]) (erule nested)
qed

lemma sendJsonRpc_plain:
  "sendJsonRpc d E request m ps s = (Resolved (Some v), s') \<Longrightarrow> plain_response v"
proof (induction d arbitrary: m ps s v s')
  case 0 then show ?case by simp
next
  case (Suc d)
  let ?f = "rpc_attempt E request (txStatusString d E request) m ps"
  have nested: "\<And>h a t v t'. txStatusString d E request h a t = (Resolved (Some v), t')
                  \<Longrightarrow> plain_response v"
    by (simp add: txStatusString_def Suc.IH)
  obtain r t where rt: "backoff_attempts REQUEST_RETRY_NUMBER ?f s = (r, t)"
    by (cases "backoff_attempts REQUEST_RETRY_NUMBER ?f s")
  with Suc.prems have "backoff_attempts REQUEST_RETRY_NUMBER ?f s = (Resolved (Some v), s')"
    by (cases r) (auto simp: sendJsonRpc_Suc check_result_def split: if_splits)
  from backoff_some_inv[OF this] obtain u where "?f u = (Resolved (Some v), s')" ..
  then show ?case by (rule rpc_attempt_plain[rotated]) (erule nested)
qed

lemma rpc_attempt_of_try:
  "rpc_try E request txs m ps s = (Rejected e, s') \<Longrightarrow>
   rpc_attempt E request txs m ps s =
     (if etype e = Some ''TimeoutError''
      then (Resolved None,
            if logs_suppressed (NEAR_NO_LOGS s') then s'
            else console_warn (''Retrying request to '' @ m @ '' as it has timed out'') ps s')
      else (Rejected e, s'))"
  by (simp add: rpc_attempt_def)


lemma timeout_attempt:
  "NEAR_NO_LOGS s = None \<Longrightarrow>
   rpc_attempt E timeout_proxy txs m ps s =
     (Resolved None,
      s\<lparr>nextId := nextId s + 1,
        warnings := warnings s @ [(''Retrying request to '' @ m @ '' as it has timed out'', ps)]\<rparr>)"
  by (simp add: rpc_attempt_def rpc_try_def timeout_proxy_def timeout_response_def Let_def
        classify_error_def read_prop_def show_int_def show_nat.simps TypedError_def
        logs_suppressed_def console_warn_def)

lemma timeout_attempts:
  "NEAR_NO_LOGS s = None \<Longrightarrow>
   backoff_attempts n (rpc_attempt E timeout_proxy txs m ps) s =
     (Resolved None,
      s\<lparr>nextId := nextId s + n,
        warnings := warnings s
          @ replicate n (''Retrying request to '' @ m @ '' as it has timed out'', ps)\<rparr>)"
proof (induction n arbitrary: s)
  case 0 then show ?case by simp
next
  case (Suc n)
  then show ?case
    by (simp add: timeout_attempt replicate_append_same)
qed

text \<open>
  Claim C4. When every attempt is rejected with a classified TimeoutError, the twelve
  attempts give the retry-signal and the executor hands back \<open>null\<close>. The test
  \<open>typeof result === 'undefined'\<close> is false for \<open>null\<close>, so \<open>sendJsonRpc\<close> returns
  \<open>null\<close> after twelve requests and twelve warnings: it does not raise RetriesExceeded.
\<close>

theorem timeout_exhaustion_resolves_null:
  "sendJsonRpc (Suc d) E timeout_proxy ''status'' (JArr []) provider0 =
     (Resolved None,
      provider0\<lparr>nextId := 135,
                warnings := replicate 12 (''Retrying request to status as it has timed out'', JArr [])\<rparr>)"
  by (simp add: sendJsonRpc_Suc timeout_attempts check_result_def REQUEST_RETRY_NUMBER_def
        provider0_def)


lemma backoff_first_some:
  "f s = (Resolved (Some v), s') \<Longrightarrow> backoff_attempts (Suc n) f s = (Resolved (Some v), s')"
  by simp

lemma backoff_first_reject:
  "f s = (Rejected e, s') \<Longrightarrow> backoff_attempts (Suc n) f s = (Rejected e, s')"
  by simp

lemma retry_number_Suc: "REQUEST_RETRY_NUMBER = Suc (REQUEST_RETRY_NUMBER - 1)"
  by (simp add: REQUEST_RETRY_NUMBER_def)

text \<open>
  Where the follow-up decides. When the proxy answers a request with an array, the
  attempt is the follow-up query \<open>sendJsonRpc('tx', [response[0], this._account])\<close>, run
  after the request id was taken and the proxy moved on. A value that the query returns,
  \<open>sendJsonRpc\<close> returns, and it is never the array; what it raises, \<open>sendJsonRpc\<close>
  raises.
\<close>

theorem sendJsonRpc_array_response_queries_tx:
  assumes resp: "request \<lparr>jsonrpc = ''2.0'', req_id = nextId s, rpc_method = method_name, params = ps\<rparr>
                   (proxy s) = (Resolved (JArr xs), p)"
  shows "rpc_attempt E request (txStatusString d E request) method_name ps s =
           sendJsonRpc d E request ''tx''
             (JArr [case xs of [] \<Rightarrow> JUndefined | x # _ \<Rightarrow> x, JStr (account s)])
             (s\<lparr>nextId := nextId s + 1, proxy := p\<rparr>)
       \<and> (\<forall>v s3. sendJsonRpc d E request ''tx''
                    (JArr [case xs of [] \<Rightarrow> JUndefined | x # _ \<Rightarrow> x, JStr (account s)])
                    (s\<lparr>nextId := nextId s + 1, proxy := p\<rparr>) = (Resolved (Some v), s3)
             \<longrightarrow> sendJsonRpc (Suc d) E request method_name ps s = (Resolved (Some v), s3)
                 \<and> v \<noteq> JArr xs)
       \<and> (\<forall>e s3. sendJsonRpc d E request ''tx''
                    (JArr [case xs of [] \<Rightarrow> JUndefined | x # _ \<Rightarrow> x, JStr (account s)])
                    (s\<lparr>nextId := nextId s + 1, proxy := p\<rparr>) = (Rejected e, s3)
             \<longrightarrow> sendJsonRpc (Suc d) E request method_name ps s = (Rejected e, s3))"
proof -
  let ?A = "rpc_attempt E request (txStatusString d E request) method_name ps"
  let ?q = "sendJsonRpc d E request ''tx''
              (JArr [case xs of [] \<Rightarrow> JUndefined | x # _ \<Rightarrow> x, JStr (account s)])
              (s\<lparr>nextId := nextId s + 1, proxy := p\<rparr>)"
  have t: "rpc_try E request (txStatusString d E request) method_name ps s = ?q"
    using resp by (simp add: rpc_try_def Let_def txStatusString_def)
  have a: "?A s = ?q"
  proof (cases ?q)
    case (Pair r t')
    show ?thesis
    proof (cases r)
      case (Rejected e)
      with Pair have "etype e \<noteq> Some ''TimeoutError''"
        using sendJsonRpc_not_timeout by blast
      with Pair Rejected t show ?thesis by (simp add: rpc_attempt_def)
    qed (use Pair t in \<open>simp_all add: rpc_attempt_def\<close>)
  qed
  have some: "sendJsonRpc (Suc d) E request method_name ps s = (Resolved (Some v), s3) \<and> v \<noteq> JArr xs"
    if q: "?q = (Resolved (Some v), s3)" for v s3
  proof -
    have pl: "plain_response v" using q by (rule sendJsonRpc_plain)
    from a q have "?A s = (Resolved (Some v), s3)" by simp
    then have "backoff_attempts REQUEST_RETRY_NUMBER ?A s = (Resolved (Some v), s3)"
      by (subst retry_number_Suc) (rule backoff_first_some)
    with pl show ?thesis
      by (cases v) (simp_all add: sendJsonRpc_Suc check_result_def)
  qed
  have rej: "sendJsonRpc (Suc d) E request method_name ps s = (Rejected e, s3)"
    if q: "?q = (Rejected e, s3)" for e s3
  proof -
    from a q have "?A s = (Rejected e, s3)" by simp
    then have "backoff_attempts REQUEST_RETRY_NUMBER ?A s = (Rejected e, s3)"
      by (subst retry_number_Suc) (rule backoff_first_reject)
    then show ?thesis by (simp add: sendJsonRpc_Suc check_result_def)
  qed
  from a some rej show ?thesis by blast
qed

lemma hash_proxy_tx:
  "sendJsonRpc (Suc d) E hash_proxy ''tx'' ps s = (Resolved (Some tx_outcome), s\<lparr>nextId := nextId s + 1\<rparr>)"
proof -
  have "rpc_attempt E hash_proxy (txStatusString d E hash_proxy) ''tx'' ps s
          = (Resolved (Some tx_outcome), s\<lparr>nextId := nextId s + 1\<rparr>)"
    by (simp add: rpc_attempt_def rpc_try_def hash_proxy_def tx_outcome_def Let_def)
  then have "backoff_attempts REQUEST_RETRY_NUMBER
               (rpc_attempt E hash_proxy (txStatusString d E hash_proxy) ''tx'' ps) s
          = (Resolved (Some tx_outcome), s\<lparr>nextId := nextId s + 1\<rparr>)"
    by (subst retry_number_Suc) (rule backoff_first_some)
  then show ?thesis by (simp add: sendJsonRpc_Suc check_result_def tx_outcome_def)
qed

theorem sendJsonRpc_array_response_queries_tx_witness:
  "hash_proxy \<lparr>jsonrpc = ''2.0'', req_id = nextId provider0,
                rpc_method = ''signAndSendTransaction'', params = JArr [JStr ''dHg='']\<rparr>
      (proxy provider0) = (Resolved (JArr [JStr ''9FtHUFBQsZ2MG'']), ())
   \<and> sendJsonRpc (Suc (Suc 0)) no_classifier hash_proxy ''signAndSendTransaction''
        (JArr [JStr ''dHg='']) provider0
      = (Resolved (Some tx_outcome), provider0\<lparr>nextId := 125\<rparr>)"
proof -
  have r: "hash_proxy \<lparr>jsonrpc = ''2.0'', req_id = nextId provider0,
                rpc_method = ''signAndSendTransaction'', params = JArr [JStr ''dHg='']\<rparr>
      (proxy provider0) = (Resolved (JArr [JStr ''9FtHUFBQsZ2MG'']), ())"
    by (simp add: hash_proxy_def)
  have q: "sendJsonRpc (Suc 0) no_classifier hash_proxy ''tx''
             (JArr [case [JStr ''9FtHUFBQsZ2MG''] of [] \<Rightarrow> JUndefined | x # _ \<Rightarrow> x,
                    JStr (account provider0)])
             (provider0\<lparr>nextId := nextId provider0 + 1, proxy := ()\<rparr>)
           = (Resolved (Some tx_outcome), provider0\<lparr>nextId := 125\<rparr>)"
    by (simp add: hash_proxy_tx provider0_def)
  from sendJsonRpc_array_response_queries_tx[where request = hash_proxy and s = provider0
         and method_name = "''signAndSendTransaction''" and ps = "JArr [JStr ''dHg='']"
         and xs = "[JStr ''9FtHUFBQsZ2MG'']" and p = "()" and d = "Suc 0"
         and E = no_classifier, OF r] q r
  show ?thesis by blast
qed

lemma resending_tx_attempt:
  "NEAR_NO_LOGS s = None \<Longrightarrow>
   rpc_attempt E resending_proxy txs ''tx'' ps s =
     (Resolved None,
      s\<lparr>nextId := nextId s + 1, proxy := Suc (proxy s),
        warnings := warnings s @ [(''Retrying request to tx as it has timed out'', ps)]\<rparr>)"
  by (simp add: rpc_attempt_def rpc_try_def resending_proxy_def timeout_response_def Let_def
        classify_error_def read_prop_def TypedError_def logs_suppressed_def console_warn_def)

lemma resending_tx_attempts:
  "NEAR_NO_LOGS s = None \<Longrightarrow>
   backoff_attempts n (rpc_attempt E resending_proxy txs ''tx'' ps) s =
     (Resolved None,
      s\<lparr>nextId := nextId s + n, proxy := proxy s + n,
        warnings := warnings s
          @ replicate n (''Retrying request to tx as it has timed out'', ps)\<rparr>)"
proof (induction n arbitrary: s)
  case 0 then show ?case by simp
next
  case (Suc n)
  then show ?case
    by (simp add: resending_tx_attempt replicate_append_same)
qed

lemma resending_tx_query:
  "NEAR_NO_LOGS s = None \<Longrightarrow>
   sendJsonRpc (Suc d) E resending_proxy ''tx'' ps s =
     (Resolved None,
      s\<lparr>nextId := nextId s + 12, proxy := proxy s + 12,
        warnings := warnings s
          @ replicate 12 (''Retrying request to tx as it has timed out'', ps)\<rparr>)"
  by (simp add: sendJsonRpc_Suc resending_tx_attempts check_result_def REQUEST_RETRY_NUMBER_def)

text \<open>
  Claim C10. A call whose first response is an array is to return the result of the
  follow-up \<open>tx\<close> query. When that query times out twelve times, the nested
  \<open>sendJsonRpc\<close> returns \<open>null\<close> where it was to raise RetriesExceeded (the defect of
  claim C4); line 455 hands the \<open>null\<close> on, the executor takes it for the retry-signal,
  and the original request goes to the proxy a second time. Here the proxy answers it
  directly, and \<open>sendJsonRpc\<close> returns that answer after fourteen requests: not the
  result of a follow-up query.
\<close>

theorem follow_up_exhaustion_resends_the_request:
  "sendJsonRpc (Suc (Suc d)) E resending_proxy ''signAndSendTransaction''
      (JArr [JStr ''dHg='']) counting0
     = (Resolved (Some (JObj [(''result'', JNum 1)])),
        counting0\<lparr>nextId := 137, proxy := 14,
          warnings := replicate 12
            (''Retrying request to tx as it has timed out'',
             JArr [JStr ''9FtHUFBQsZ2MG'', JStr ''alice.test''])\<rparr>)"
proof -
  let ?A = "rpc_attempt E resending_proxy (txStatusString (Suc d) E resending_proxy)
              ''signAndSendTransaction'' (JArr [JStr ''dHg=''])"
  let ?w = "replicate 12 (''Retrying request to tx as it has timed out'',
                          JArr [JStr ''9FtHUFBQsZ2MG'', JStr ''alice.test''])"
  let ?s1 = "counting0\<lparr>nextId := 136, proxy := 13, warnings := ?w\<rparr>"
  have a1: "?A counting0 = (Resolved None, ?s1)"
    by (simp add: rpc_attempt_def rpc_try_def Let_def resending_proxy_def txStatusString_def
          resending_tx_query counting0_def)
  have a2: "?A ?s1 = (Resolved (Some (JObj [(''result'', JNum 1)])),
                      counting0\<lparr>nextId := 137, proxy := 14, warnings := ?w\<rparr>)"
    by (simp add: rpc_attempt_def rpc_try_def Let_def resending_proxy_def counting0_def)
  have n: "REQUEST_RETRY_NUMBER = Suc (Suc (REQUEST_RETRY_NUMBER - 2))"
    by (simp add: REQUEST_RETRY_NUMBER_def)
  have "backoff_attempts REQUEST_RETRY_NUMBER ?A counting0
          = (Resolved (Some (JObj [(''result'', JNum 1)])),
             counting0\<lparr>nextId := 137, proxy := 14, warnings := ?w\<rparr>)"
    by (subst n) (simp only: backoff_attempts.simps a1 a2 prod.case promise.case option.case)
  then show ?thesis by (simp add: sendJsonRpc_Suc check_result_def)
qed


section \<open>Properties of the access key cache and the submission engine\<close>

lemma findAccessKey_resume_effects:
  "effects (snd (findAccessKey_resume pk reply s)) = effects s"
  by (simp add: findAccessKey_resume_def split: promise.splits option.splits)

lemma findAccessKey_effects:
  "effects (snd (findAccessKey c rid acts s)) = effects s"
  by (simp add: findAccessKey_def findAccessKey_resume_effects
        split: prod.splits promise.splits option.splits)

lemma findAccessKey_resume_cached:
  "findAccessKey_resume pk reply s = (Resolved (Some (k, a)), s1) \<Longrightarrow>
   k = pk \<and> accessKeyByPublicKeyCache s1 pk = Some a"
  by (auto simp: findAccessKey_resume_def split: promise.splits option.splits if_splits)

lemma findAccessKey_cached:
  "findAccessKey c rid acts s = (Resolved (Some (pk, a)), s1) \<Longrightarrow>
   accessKeyByPublicKeyCache s1 pk = Some a"
  by (auto simp: findAccessKey_def split: prod.splits promise.splits option.splits
        dest: findAccessKey_resume_cached)

lemma findAccessKey_resume_lineage:
  "nonce_lineage s \<Longrightarrow> nonce_lineage (snd (findAccessKey_resume pk reply s))"
  by (auto simp: findAccessKey_resume_def nonce_lineage_def less_Suc_eq
        split: promise.splits option.splits if_splits)

lemma nonce_lineage_world: "nonce_lineage (s\<lparr>world := w\<rparr>) = nonce_lineage s"
  by (simp add: nonce_lineage_def)

lemma findAccessKey_lineage:
  "nonce_lineage s \<Longrightarrow> nonce_lineage (snd (findAccessKey c rid acts s))"
  by (auto simp: findAccessKey_def nonce_lineage_world
        split: prod.splits promise.splits option.splits
        intro: findAccessKey_resume_lineage[where s = "s\<lparr>world := w\<rparr>" for w, simplified nonce_lineage_world])

lemma issued_append: "issued a (es @ es') = issued a es @ issued a es'"
  by (induction a es rule: issued.induct) simp_all

lemma deleted_append: "deleted (es @ es') = deleted es @ deleted es'"
  by (induction es rule: deleted.induct) simp_all

lemma sorted_le_last:
  "sorted_wrt rises xs \<Longrightarrow> x \<in> set xs \<Longrightarrow> x \<le> last xs"
  by (induction xs) (auto simp: rises_def)

lemma js_increment_rises: "rises n (js_increment n)"
  by (simp add: rises_def js_increment_def)

lemma rises_trans_le: "x \<le> n \<Longrightarrow> rises n y \<Longrightarrow> rises x y"
  by (auto simp: rises_def)

lemma issue_lineage:
  assumes inv: "nonce_lineage s" and a: "a < next_ref s"
  shows "nonce_lineage
           (s\<lparr>world := w,
              heap := (heap s)(a := (heap s a)\<lparr>nonce := js_increment (nonce (heap s a))\<rparr>),
              effects := effects s @ [Issued a (js_increment (nonce (heap s a)))]\<rparr>)"
proof -
  have sorted: "sorted_wrt rises (issued a (effects s))"
    and last: "issued a (effects s) \<noteq> [] \<Longrightarrow> last (issued a (effects s)) = nonce (heap s a)"
    using inv by (simp_all add: nonce_lineage_def)
  have below: "rises x (js_increment (nonce (heap s a)))"
    if "x \<in> set (issued a (effects s))" for x
  proof -
    from that have ne: "issued a (effects s) \<noteq> []" by auto
    from sorted_le_last[OF sorted that] last[OF ne] have "x \<le> nonce (heap s a)" by simp
    then show ?thesis using js_increment_rises by (rule rises_trans_le)
  qed
  show ?thesis
    using inv a below
    by (auto simp: nonce_lineage_def issued_append sorted_wrt_append)
qed

lemma signTransaction_lineage:
  assumes inv: "nonce_lineage s"
  shows "nonce_lineage (snd (signTransaction c rid acts s))"
proof -
  obtain r s1 where f: "findAccessKey c rid acts s = (r, s1)"
    by (cases "findAccessKey c rid acts s")
  have inv1: "nonce_lineage s1"
    using findAccessKey_lineage[OF inv, of c rid acts] f by simp
  show ?thesis
  proof (cases r)
    case (Resolved found)
    show ?thesis
    proof (cases found)
      case None
      with f Resolved inv1 show ?thesis by (simp add: signTransaction_def)
    next
      case (Some pa)
      obtain pk a where pa: "pa = (pk, a)" by (cases pa)
      from f Resolved Some pa have "accessKeyByPublicKeyCache s1 pk = Some a"
        by (auto dest: findAccessKey_cached)
      with inv1 have a: "a < next_ref s1" by (auto simp: nonce_lineage_def)
      obtain b w where b: "block c (world s1) = (b, w)" by (cases "block c (world s1)")
      show ?thesis
      proof (cases b)
        case (Resolved hash)
        from issue_lineage[OF inv1 a, of w]
        show ?thesis
          using f \<open>r = Resolved found\<close> Some pa b Resolved
          by (simp add: signTransaction_def Let_def nonce_lineage_def split: prod.splits)
      qed (use f \<open>r = Resolved found\<close> Some pa b inv1 in
             \<open>simp_all add: signTransaction_def nonce_lineage_world\<close>)
    qed
  qed (use f inv1 in \<open>simp_all add: signTransaction_def\<close>)
qed

lemma sign_all_lineage:
  "nonce_lineage s \<Longrightarrow> nonce_lineage (sign_all c reqs s)"
  by (induction c reqs s rule: sign_all.induct) (simp_all add: signTransaction_lineage)

lemma sorted_lt_distinct: "sorted_wrt (<) (xs :: int list) \<Longrightarrow> distinct xs"
  by (induction xs) auto

lemma rises_exact_sorted:
  "sorted_wrt rises xs \<Longrightarrow> sorted_wrt (<) (filter exact_range xs)"
  by (induction xs) (auto simp: rises_def)

lemma findAccessKey_resume_grows:
  "accessKeyByPublicKeyCache s \<subseteq>\<^sub>m accessKeyByPublicKeyCache (snd (findAccessKey_resume pk reply s))"
  by (auto simp: findAccessKey_resume_def map_le_def split: promise.splits option.splits)

lemma findAccessKey_grows:
  "accessKeyByPublicKeyCache s \<subseteq>\<^sub>m accessKeyByPublicKeyCache (snd (findAccessKey c rid acts s))"
proof -
  have "accessKeyByPublicKeyCache s
          \<subseteq>\<^sub>m accessKeyByPublicKeyCache (snd (findAccessKey_resume pk reply (s\<lparr>world := w\<rparr>)))"
    for pk reply w
    using findAccessKey_resume_grows[of "s\<lparr>world := w\<rparr>" pk reply] by simp
  then show ?thesis
    by (auto simp: findAccessKey_def split: prod.splits promise.splits option.splits)
qed

lemma signTransaction_after_find:
  assumes f: "findAccessKey c rid acts s = (r, s1)"
  shows "deleted (effects (snd (signTransaction c rid acts s))) = deleted (effects s1)
       \<and> accessKeyByPublicKeyCache (snd (signTransaction c rid acts s)) = accessKeyByPublicKeyCache s1
       \<and> (\<exists>es. effects (snd (signTransaction c rid acts s)) = effects s1 @ es)"
  using f
  by (auto simp: signTransaction_def Let_def deleted_append
        split: prod.splits promise.splits option.splits)

lemma signTransaction_deleted:
  "deleted (effects (snd (signTransaction c rid acts s))) = deleted (effects s)"
proof -
  obtain r s1 where f: "findAccessKey c rid acts s = (r, s1)"
    by (cases "findAccessKey c rid acts s")
  from findAccessKey_effects[of c rid acts s] f have "effects s1 = effects s" by simp
  with signTransaction_after_find[OF f] show ?thesis by simp
qed

lemma signTransaction_grows:
  "accessKeyByPublicKeyCache s \<subseteq>\<^sub>m accessKeyByPublicKeyCache (snd (signTransaction c rid acts s))"
proof -
  obtain r s1 where f: "findAccessKey c rid acts s = (r, s1)"
    by (cases "findAccessKey c rid acts s")
  from findAccessKey_grows[of s c rid acts] f signTransaction_after_find[OF f]
  show ?thesis by simp
qed

lemma signTransaction_effects_grow:
  "\<exists>es. effects (snd (signTransaction c rid acts s)) = effects s @ es"
proof -
  obtain r s1 where f: "findAccessKey c rid acts s = (r, s1)"
    by (cases "findAccessKey c rid acts s")
  from findAccessKey_effects[of c rid acts s] f have "effects s1 = effects s" by simp
  with signTransaction_after_find[OF f] show ?thesis by simp
qed

lemma sign_all_effects_grow:
  "\<exists>es. effects (sign_all c reqs s) = effects s @ es"
proof (induction c reqs s rule: sign_all.induct)
  case (1 c s)
  then show ?case by simp
next
  case (2 c rid acts rest s)
  from signTransaction_effects_grow[of c rid acts s] obtain es1
    where "effects (snd (signTransaction c rid acts s)) = effects s @ es1" ..
  with 2 show ?case by auto
qed

lemma signTransaction_issues:
  assumes f: "findAccessKey c rid acts s = (Resolved (Some (pk, a)), s1)"
    and b: "block c (world s1) = (Resolved hash, w)"
  shows "accessKeyByPublicKeyCache (snd (signTransaction c rid acts s)) pk = Some a
       \<and> nonce (heap (snd (signTransaction c rid acts s)) a) = js_increment (nonce (heap s1 a))
       \<and> (exact_range (nonce (heap s1 a)) \<longrightarrow>
            js_increment (nonce (heap s1 a)) = nonce (heap s1 a) + 1)
       \<and> effects (snd (signTransaction c rid acts s))
           = effects s1 @ [Issued a (js_increment (nonce (heap s1 a)))]
       \<and> fst (signTransaction c rid acts s)
           = fst (tx_signTransaction c rid (js_increment (nonce (heap s1 a))) acts hash
                    (accountId s1) (networkId c) w)"
  using f b findAccessKey_cached[OF f]
  by (simp add: signTransaction_def Let_def js_increment_def split: prod.splits)

text \<open>
  Claim C1, amended. Over every run of signing attempts, from a state in which the cache
  is in line, the nonces that \<open>signTransaction\<close> has issued on one cache object never
  fall, and each one that is in the range where the increment is exact (from \<open>-2^53\<close>
  to below \<open>2^53\<close>) is strictly greater than every nonce issued before it on that
  object: those nonces are strictly increasing and without duplicates. The nonces issued
  before the run come first, and the last one issued is the nonce the object holds. In
  one attempt that resolves the key and the block, the object that the cache holds for
  the key has its nonce incremented in place, by one when the nonce is in that range, and
  the new nonce is the one handed to the signing.
\<close>

theorem signing_attempts_issue_increasing_nonces:
  assumes inv: "nonce_lineage s"
  shows "sorted_wrt rises (issued a (effects (sign_all c reqs s)))
       \<and> sorted_wrt (<) (filter exact_range (issued a (effects (sign_all c reqs s))))
       \<and> distinct (filter exact_range (issued a (effects (sign_all c reqs s))))
       \<and> (\<exists>new. issued a (effects (sign_all c reqs s)) = issued a (effects s) @ new)
       \<and> (issued a (effects (sign_all c reqs s)) \<noteq> [] \<longrightarrow>
            last (issued a (effects (sign_all c reqs s))) = nonce (heap (sign_all c reqs s) a))
       \<and> (\<forall>pk s1 hash w.
            findAccessKey c rid acts s = (Resolved (Some (pk, a)), s1)
            \<and> block c (world s1) = (Resolved hash, w) \<longrightarrow>
              accessKeyByPublicKeyCache (snd (signTransaction c rid acts s)) pk = Some a
            \<and> nonce (heap (snd (signTransaction c rid acts s)) a)
                = js_increment (nonce (heap s1 a))
            \<and> (exact_range (nonce (heap s1 a)) \<longrightarrow>
                 js_increment (nonce (heap s1 a)) = nonce (heap s1 a) + 1)
            \<and> effects (snd (signTransaction c rid acts s))
                = effects s1 @ [Issued a (js_increment (nonce (heap s1 a)))]
            \<and> fst (signTransaction c rid acts s)
                = fst (tx_signTransaction c rid (js_increment (nonce (heap s1 a))) acts hash
                         (accountId s1) (networkId c) w))"
proof -
  have l: "nonce_lineage (sign_all c reqs s)" using inv by (rule sign_all_lineage)
  then have sorted: "sorted_wrt rises (issued a (effects (sign_all c reqs s)))"
    and last: "issued a (effects (sign_all c reqs s)) \<noteq> [] \<longrightarrow>
            last (issued a (effects (sign_all c reqs s))) = nonce (heap (sign_all c reqs s) a)"
    by (simp_all add: nonce_lineage_def)
  have strict: "sorted_wrt (<) (filter exact_range (issued a (effects (sign_all c reqs s))))"
    using sorted by (rule rises_exact_sorted)
  from sign_all_effects_grow[of c reqs s] obtain es
    where "effects (sign_all c reqs s) = effects s @ es" ..
  then have grow: "\<exists>new. issued a (effects (sign_all c reqs s)) = issued a (effects s) @ new"
    by (simp add: issued_append)
  from sorted strict last grow sorted_lt_distinct[OF strict]
    signTransaction_issues[of c rid acts s _ a]
  show ?thesis by blast
qed

lemma lineage_account0: "nonce_lineage (account0 script)"
  by (simp add: nonce_lineage_def account0_def)

lemma mock_find0:
  "findAccessKey mock_connection rid acts (account0 script)
     = (Resolved (Some (test_key, 0)),
        account0 script\<lparr>heap := (heap (account0 script))(0 := \<lparr>nonce = 5, permission = JStr ''FullAccess''\<rparr>),
                         next_ref := 1,
                         accessKeyByPublicKeyCache := [test_key \<mapsto> 0]\<rparr>)"
  by (simp add: findAccessKey_def findAccessKey_resume_def mock_connection_def account0_def)

lemma mock_sign_all3:
  "issued 0 (effects (sign_all mock_connection
       [(''bob.test'', []), (''bob.test'', []), (''carol.test'', [])] (account0 []))) = [6, 7, 8]"
  by (simp add: signTransaction_def findAccessKey_def findAccessKey_resume_def
        mock_connection_def mock_sign_def account0_def Let_def js_increment_def exact_range_def)

theorem signing_attempts_issue_increasing_nonces_witness:
  "nonce_lineage (account0 [])
   \<and> issued 0 (effects (sign_all mock_connection
        [(''bob.test'', []), (''bob.test'', []), (''carol.test'', [])] (account0 []))) = [6, 7, 8]
   \<and> filter exact_range [6, 7, 8] = [6, 7, 8]
   \<and> sorted_wrt (<) [6, 7, 8 :: int]
   \<and> nonce (heap (snd (signTransaction mock_connection ''bob.test'' [] (account0 []))) 0) = 6
   \<and> effects (snd (signTransaction mock_connection ''bob.test'' [] (account0 []))) = [Issued 0 6]"
proof -
  have b: "block mock_connection (world s1) = (Resolved ''9fJcQ'', world s1)"
    for s1 :: "js_error list account_state"
    by (simp add: mock_connection_def)
  from signing_attempts_issue_increasing_nonces[OF lineage_account0, of 0 mock_connection
         "[(''bob.test'', []), (''bob.test'', []), (''carol.test'', [])]" "[]" "''bob.test''" "[]"]
       mock_find0[of "''bob.test''" "[]" "[]"] b
  have "nonce (heap (snd (signTransaction mock_connection ''bob.test'' [] (account0 []))) 0) = 6
      \<and> effects (snd (signTransaction mock_connection ''bob.test'' [] (account0 []))) = [Issued 0 6]"
    by (simp add: account0_def js_increment_def exact_range_def)
  with lineage_account0[of "[]"] mock_sign_all3 show ?thesis by (simp add: exact_range_def)
qed

text \<open>
  Claim C1 as stated fails at the end of that range: when the node reports the nonce
  \<open>2^53\<close>, the increment rounds back to \<open>2^53\<close>, and two signing attempts on the one
  cache entry sign with the same nonce.
\<close>

theorem nonce_repeats_from_two_to_the_53:
  "issued 0 (effects (sign_all big_nonce_connection
       [(''bob.test'', []), (''bob.test'', [])] (account0 [])))
     = [9007199254740992, 9007199254740992]
   \<and> \<not> distinct (issued 0 (effects (sign_all big_nonce_connection
       [(''bob.test'', []), (''bob.test'', [])] (account0 []))))"
  by (simp add: signTransaction_def findAccessKey_def findAccessKey_resume_def
        big_nonce_connection_def mock_connection_def mock_sign_def account0_def Let_def
        js_increment_def exact_range_def)

lemma tx_retry_number_Suc: "TX_NONCE_RETRY_NUMBER = Suc (TX_NONCE_RETRY_NUMBER - 1)"
  by (simp add: TX_NONCE_RETRY_NUMBER_def)

lemma tx_retry_number_Suc2: "TX_NONCE_RETRY_NUMBER - 1 = Suc (TX_NONCE_RETRY_NUMBER - 2)"
  by (simp add: TX_NONCE_RETRY_NUMBER_def)

lemma submission_unfold:
  "signAndSendTransactionV2 c E rid acts s =
     (case backoff_attempts TX_NONCE_RETRY_NUMBER (tx_attempt c rid acts) s of
        (Pending, s') \<Rightarrow> (Pending, s')
      | (Rejected e, s') \<Rightarrow> (Rejected e, s')
      | (Resolved None, s') \<Rightarrow>
          (Rejected (TypedError
             (''nonce retries exceeded for transaction. This usually means there are ''
              @ ''too many parallel requests with the same access key.'')
             ''RetriesExceeded''), s')
      | (Resolved (Some rs), s') \<Rightarrow> report_outcome E rs s')"
  by (simp add: signAndSendTransactionV2_def exponentialBackoff_def)

lemma submission_first_raise:
  assumes "tx_attempt c rid acts s = (Rejected e, s')"
  shows "signAndSendTransactionV2 c E rid acts s = (Rejected e, s')"
proof -
  from assms have "backoff_attempts TX_NONCE_RETRY_NUMBER (tx_attempt c rid acts) s = (Rejected e, s')"
    by (subst tx_retry_number_Suc) simp
  then show ?thesis by (simp add: submission_unfold)
qed

lemma tx_attempt_sign_raise:
  "signTransaction c rid acts s = (Rejected e, s') \<Longrightarrow> tx_attempt c rid acts s = (Rejected e, s')"
  by (simp add: tx_attempt_def)

text \<open>
  Claim C6. When the signer has no public key, and when the key is not cached and the
  network query fails with type AccessKeyDoesNotExist, \<open>signTransaction\<close> raises the
  TypedError of line 87, whose kind is KeyNotFound, and so does the submission, in the
  state that one key resolution leaves: there is no second attempt. A query that fails
  with any other type raises that same error from \<open>findAccessKey\<close>, \<open>signTransaction\<close>
  and the submission.
\<close>

theorem key_not_found_is_fatal_other_failures_propagate:
  "(getPublicKey c (accountId s) (networkId c) (world s) = (Resolved None, w) \<longrightarrow>
      signTransaction c rid acts s
        = (Rejected (TypedError
             (''Can not sign transactions for account '' @ accountId s @ '' on network ''
              @ networkId c @ '', no matching key pair found in '' @ signer_text c @ ''.'')
             ''KeyNotFound''), s\<lparr>world := w\<rparr>)
    \<and> signAndSendTransactionV2 c E rid acts s
        = (Rejected (TypedError
             (''Can not sign transactions for account '' @ accountId s @ '' on network ''
              @ networkId c @ '', no matching key pair found in '' @ signer_text c @ ''.'')
             ''KeyNotFound''), s\<lparr>world := w\<rparr>))
   \<and> (getPublicKey c (accountId s) (networkId c) (world s) = (Resolved (Some pk), w)
      \<and> accessKeyByPublicKeyCache s pk = None
      \<and> query c (accountId s) pk w = (Rejected e, w') \<longrightarrow>
        (etype e = Some ''AccessKeyDoesNotExist'' \<longrightarrow>
           findAccessKey c rid acts s = (Resolved None, s\<lparr>world := w'\<rparr>)
         \<and> signTransaction c rid acts s
             = (Rejected (TypedError
             (''Can not sign transactions for account '' @ accountId s @ '' on network ''
              @ networkId c @ '', no matching key pair found in '' @ signer_text c @ ''.'')
             ''KeyNotFound''), s\<lparr>world := w'\<rparr>)
         \<and> signAndSendTransactionV2 c E rid acts s
             = (Rejected (TypedError
             (''Can not sign transactions for account '' @ accountId s @ '' on network ''
              @ networkId c @ '', no matching key pair found in '' @ signer_text c @ ''.'')
             ''KeyNotFound''), s\<lparr>world := w'\<rparr>))
      \<and> (etype e \<noteq> Some ''AccessKeyDoesNotExist'' \<longrightarrow>
           findAccessKey c rid acts s = (Rejected e, s\<lparr>world := w'\<rparr>)
         \<and> signTransaction c rid acts s = (Rejected e, s\<lparr>world := w'\<rparr>)
         \<and> signAndSendTransactionV2 c E rid acts s = (Rejected e, s\<lparr>world := w'\<rparr>)))
   \<and> etype (TypedError
             (''Can not sign transactions for account '' @ accountId s @ '' on network ''
              @ networkId c @ '', no matching key pair found in '' @ signer_text c @ ''.'')
             ''KeyNotFound'') = Some ''KeyNotFound''"
proof -
  have a: "signTransaction c rid acts s = (Rejected (key_not_found c s), s\<lparr>world := w\<rparr>)"
    if "getPublicKey c (accountId s) (networkId c) (world s) = (Resolved None, w)"
    using that by (simp add: signTransaction_def findAccessKey_def key_not_found_def)
  have f: "findAccessKey c rid acts s = findAccessKey_resume pk (Rejected e) (s\<lparr>world := w'\<rparr>)"
    if "getPublicKey c (accountId s) (networkId c) (world s) = (Resolved (Some pk), w)"
      "accessKeyByPublicKeyCache s pk = None" "query c (accountId s) pk w = (Rejected e, w')"
    using that by (simp add: findAccessKey_def)
  have b: "signTransaction c rid acts s = (Rejected (key_not_found c s), s\<lparr>world := w'\<rparr>)"
    if "findAccessKey c rid acts s = (Resolved None, s\<lparr>world := w'\<rparr>)"
    using that by (simp add: signTransaction_def key_not_found_def)
  have d: "signTransaction c rid acts s = (Rejected e, s\<lparr>world := w'\<rparr>)"
    if "findAccessKey c rid acts s = (Rejected e, s\<lparr>world := w'\<rparr>)"
    using that by (simp add: signTransaction_def)
  have up: "signAndSendTransactionV2 c E rid acts s = (Rejected x, t)"
    if "signTransaction c rid acts s = (Rejected x, t)" for x t
    using that by (intro submission_first_raise tx_attempt_sign_raise)
  have k: "key_not_found c s = (TypedError
             (''Can not sign transactions for account '' @ accountId s @ '' on network ''
              @ networkId c @ '', no matching key pair found in '' @ signer_text c @ ''.'')
             ''KeyNotFound'')"
    by (simp add: key_not_found_def)
  have ty: "etype (TypedError
             (''Can not sign transactions for account '' @ accountId s @ '' on network ''
              @ networkId c @ '', no matching key pair found in '' @ signer_text c @ ''.'')
             ''KeyNotFound'') = Some ''KeyNotFound''"
    by (simp add: TypedError_def)
  show ?thesis
    unfolding k[symmetric]
    using a f b d up ty[unfolded k[symmetric]] by (auto simp: findAccessKey_resume_def)
qed

theorem key_not_found_is_fatal_other_failures_propagate_witness:
  "signAndSendTransactionV2 keyless_connection no_classifier ''bob.test'' [] (account0 [])
     = (Rejected (TypedError
             (''Can not sign transactions for account alice.test on network testnet, ''
              @ ''no matching key pair found in InMemorySigner.'')
             ''KeyNotFound''), account0 [])
   \<and> signAndSendTransactionV2
        (failing_query_connection (TypedError ''access key does not exist'' ''AccessKeyDoesNotExist''))
        no_classifier ''bob.test'' [] (account0 [])
     = (Rejected (TypedError
             (''Can not sign transactions for account alice.test on network testnet, ''
              @ ''no matching key pair found in InMemorySigner.'')
             ''KeyNotFound''), account0 [])
   \<and> etype (TypedError
             (''Can not sign transactions for account alice.test on network testnet, ''
              @ ''no matching key pair found in InMemorySigner.'')
             ''KeyNotFound'') = Some ''KeyNotFound''
   \<and> signAndSendTransactionV2
        (failing_query_connection (TypedError ''account does not exist'' ''AccountDoesNotExist''))
        no_classifier ''bob.test'' [] (account0 [])
     = (Rejected (TypedError ''account does not exist'' ''AccountDoesNotExist''), account0 [])"
proof -
  let ?e1 = "TypedError ''access key does not exist'' ''AccessKeyDoesNotExist''"
  let ?e2 = "TypedError ''account does not exist'' ''AccountDoesNotExist''"
  let ?k = "(TypedError
             (''Can not sign transactions for account alice.test on network testnet, ''
              @ ''no matching key pair found in InMemorySigner.'')
             ''KeyNotFound'')"
  note t1 = key_not_found_is_fatal_other_failures_propagate[where c = keyless_connection
         and s = "account0 []" and w = "[]" and E = no_classifier and rid = "''bob.test''"
         and acts = "[]"]
  from t1[THEN conjunct1]
  have a: "signAndSendTransactionV2 keyless_connection no_classifier ''bob.test'' [] (account0 [])
     = (Rejected ?k, account0 [])"
    by (simp add: keyless_connection_def mock_connection_def account0_def)
  from t1[THEN conjunct2, THEN conjunct2]
  have ty: "etype ?k = Some ''KeyNotFound''"
    by (simp add: keyless_connection_def mock_connection_def account0_def)
  from key_not_found_is_fatal_other_failures_propagate[where c = "failing_query_connection ?e1"
         and s = "account0 []" and w = "[]" and w' = "[]" and pk = test_key and e = ?e1
         and E = no_classifier and rid = "''bob.test''" and acts = "[]", THEN conjunct2,
         THEN conjunct1]
  have b: "signAndSendTransactionV2 (failing_query_connection ?e1) no_classifier ''bob.test'' []
             (account0 [])
     = (Rejected ?k, account0 [])"
    by (simp add: failing_query_connection_def mock_connection_def account0_def TypedError_def)
  from key_not_found_is_fatal_other_failures_propagate[where c = "failing_query_connection ?e2"
         and s = "account0 []" and w = "[]" and w' = "[]" and pk = test_key and e = ?e2
         and E = no_classifier and rid = "''bob.test''" and acts = "[]", THEN conjunct2,
         THEN conjunct1]
  have d: "signAndSendTransactionV2 (failing_query_connection ?e2) no_classifier ''bob.test'' []
             (account0 [])
     = (Rejected ?e2, account0 [])"
    by (simp add: failing_query_connection_def mock_connection_def account0_def TypedError_def)
  from a b ty d show ?thesis by simp
qed

lemma logWarning_fields:
  "accessKeyByPublicKeyCache (logWarning t s) = accessKeyByPublicKeyCache s"
  "heap (logWarning t s) = heap s"
  "world (logWarning t s) = world s"
  "next_ref (logWarning t s) = next_ref s"
  "deleted (effects (logWarning t s)) = deleted (effects s)"
  by (simp_all add: logWarning_def deleted_append)

lemma deleted_Printed: "deleted (map (Printed cid) flat) = []"
  by (induction flat) simp_all

lemma printLogs_deleted:
  "deleted (effects (printLogsAndFailures cid flat s)) = deleted (effects s)"
  by (simp add: printLogsAndFailures_def deleted_append deleted_Printed)

text \<open>
  Claim C2. In an attempt whose transaction the node rejects with type InvalidNonce, the
  attempt gives the retry-signal instead of raising; the entry of the transaction's public
  key is removed from the cache and nothing else of the cache, the store or the world
  changes; the executor goes on with the attempts that are left, each of which starts at
  \<open>signTransaction\<close>, that is at key resolution. If the next attempt is accepted, the
  submission returns the node's outcome and exactly one deletion has been added.
\<close>

theorem invalid_nonce_invalidates_key_and_retries:
  assumes sign: "signTransaction c rid acts s = (Resolved (txHash, signedTx), s1)"
    and send: "sendTransaction c signedTx (world s1) = (Rejected error, w)"
    and ty: "etype error = Some ''InvalidNonce''"
  shows "fst (tx_attempt c rid acts s) = Resolved None
       \<and> accessKeyByPublicKeyCache (snd (tx_attempt c rid acts s))
           = (accessKeyByPublicKeyCache s1)(publicKey (transaction signedTx) := None)
       \<and> deleted (effects (snd (tx_attempt c rid acts s)))
           = deleted (effects s) @ [publicKey (transaction signedTx)]
       \<and> heap (snd (tx_attempt c rid acts s)) = heap s1
       \<and> world (snd (tx_attempt c rid acts s)) = w
       \<and> exponentialBackoff TX_NONCE_RETRY_WAIT TX_NONCE_RETRY_NUMBER TX_NONCE_RETRY_WAIT_BACKOFF
            (tx_attempt c rid acts) s
           = backoff_attempts (TX_NONCE_RETRY_NUMBER - 1) (tx_attempt c rid acts)
               (snd (tx_attempt c rid acts s))
       \<and> (\<forall>txHash' signedTx' s3 result w' flat.
             signTransaction c rid acts (snd (tx_attempt c rid acts s))
               = (Resolved (txHash', signedTx'), s3)
             \<and> sendTransaction c signedTx' (world s3) = (Resolved result, w')
             \<and> flatLogs E result = Some flat \<and> status_failure E result = Some None \<longrightarrow>
               signAndSendTransactionV2 c E rid acts s
                 = (Resolved result,
                    printLogsAndFailures (receiverId (transaction signedTx')) flat (s3\<lparr>world := w'\<rparr>))
             \<and> deleted (effects (snd (signAndSendTransactionV2 c E rid acts s)))
                 = deleted (effects s) @ [publicKey (transaction signedTx)])"
proof -
  let ?pk = "publicKey (transaction signedTx)"
  define s2 where "s2 = snd (tx_attempt c rid acts s)"
  have d1: "deleted (effects s1) = deleted (effects s)"
    using signTransaction_deleted[of c rid acts s] sign by simp
  have "fst (tx_attempt c rid acts s) = Resolved None"
    using sign send ty by (simp add: tx_attempt_def Let_def)
  then have att: "tx_attempt c rid acts s = (Resolved None, s2)"
    by (simp add: s2_def prod_eq_iff)
  have cache: "accessKeyByPublicKeyCache s2 = (accessKeyByPublicKeyCache s1)(?pk := None)"
    unfolding s2_def using sign send ty by (simp add: tx_attempt_def Let_def logWarning_fields)
  have dl: "deleted (effects s2) = deleted (effects s) @ [?pk]"
    unfolding s2_def using sign send ty d1
    by (simp add: tx_attempt_def Let_def logWarning_fields deleted_append)
  have hw: "heap s2 = heap s1" "world s2 = w"
    unfolding s2_def using sign send ty by (simp_all add: tx_attempt_def Let_def logWarning_fields)
  have cont: "backoff_attempts TX_NONCE_RETRY_NUMBER (tx_attempt c rid acts) s
                = backoff_attempts (TX_NONCE_RETRY_NUMBER - 1) (tx_attempt c rid acts) s2"
    by (subst tx_retry_number_Suc) (simp add: att)
  have scen: "signAndSendTransactionV2 c E rid acts s
                 = (Resolved result,
                    printLogsAndFailures (receiverId (transaction signedTx')) flat (s3\<lparr>world := w'\<rparr>))
             \<and> deleted (effects (snd (signAndSendTransactionV2 c E rid acts s)))
                 = deleted (effects s) @ [?pk]"
    if s2: "signTransaction c rid acts s2 = (Resolved (txHash', signedTx'), s3)"
      and ok: "sendTransaction c signedTx' (world s3) = (Resolved result, w')"
      and fl: "flatLogs E result = Some flat" and st: "status_failure E result = Some None"
    for txHash' signedTx' s3 result w' flat
  proof -
    have a2: "tx_attempt c rid acts s2 = (Resolved (Some (result, signedTx')), s3\<lparr>world := w'\<rparr>)"
      using s2 ok by (simp add: tx_attempt_def)
    have "backoff_attempts (TX_NONCE_RETRY_NUMBER - 1) (tx_attempt c rid acts) s2
            = (Resolved (Some (result, signedTx')), s3\<lparr>world := w'\<rparr>)"
      by (subst tx_retry_number_Suc2) (simp add: a2)
    with cont have r: "signAndSendTransactionV2 c E rid acts s
            = report_outcome E (result, signedTx') (s3\<lparr>world := w'\<rparr>)"
      by (simp add: submission_unfold)
    have d3: "deleted (effects s3) = deleted (effects s2)"
      using signTransaction_deleted[of c rid acts s2] s2 by simp
    from r fl st d3 dl show ?thesis
      by (simp add: report_outcome_def Let_def printLogs_deleted)
  qed
  have e: "snd (tx_attempt c rid acts s) = s2" by (simp add: s2_def)
  have f: "fst (tx_attempt c rid acts s) = Resolved None" using att by simp
  show ?thesis
    unfolding e exponentialBackoff_def
    using f cache dl hw cont scen by blast
qed

lemma mock_sign_shape:
  "\<exists>h tx s1. signTransaction mock_connection rid acts s = (Resolved (h, tx), s1)
     \<and> publicKey (transaction tx) = test_key \<and> receiverId (transaction tx) = rid
     \<and> world s1 = world s"
  by (simp add: signTransaction_def findAccessKey_def findAccessKey_resume_def
        mock_connection_def mock_sign_def Let_def split: option.splits)

lemma accepted_report:
  "flatLogs E accepted = Some []" "status_failure E accepted = Some None"
  by (simp_all add: flatLogs_def flat_step_def status_failure_def accepted_def)

theorem invalid_nonce_invalidates_key_and_retries_witness:
  "fst (signAndSendTransactionV2 mock_connection no_classifier ''bob.test'' []
          (account0 [TypedError ''nonce too small'' ''InvalidNonce''])) = Resolved accepted
   \<and> deleted (effects (snd (signAndSendTransactionV2 mock_connection no_classifier ''bob.test'' []
          (account0 [TypedError ''nonce too small'' ''InvalidNonce''])))) = [test_key]"
proof -
  let ?e = "TypedError ''nonce too small'' ''InvalidNonce''"
  let ?s = "account0 [?e]"
  let ?s2 = "snd (tx_attempt mock_connection ''bob.test'' [] ?s)"
  obtain h tx s1 where sign: "signTransaction mock_connection ''bob.test'' [] ?s = (Resolved (h, tx), s1)"
    and pk: "publicKey (transaction tx) = test_key" and w1: "world s1 = world ?s"
    using mock_sign_shape[of "''bob.test''" "[]" ?s] by blast
  have send: "sendTransaction mock_connection tx (world s1) = (Rejected ?e, [])"
    by (simp add: w1 mock_connection_def mock_send_def account0_def)
  have ty: "etype ?e = Some ''InvalidNonce''" by (simp add: TypedError_def)
  note t = invalid_nonce_invalidates_key_and_retries[OF sign send ty, where E = no_classifier]
  obtain h' tx' s3 where sign2: "signTransaction mock_connection ''bob.test'' [] ?s2 = (Resolved (h', tx'), s3)"
    and w3: "world s3 = world ?s2"
    using mock_sign_shape[of "''bob.test''" "[]" ?s2] by blast
  from t have "world ?s2 = []" by blast
  with w3 have send2: "sendTransaction mock_connection tx' (world s3) = (Resolved accepted, [])"
    by (simp add: mock_connection_def mock_send_def)
  from t sign2 send2 accepted_report[of no_classifier]
  have "signAndSendTransactionV2 mock_connection no_classifier ''bob.test'' [] ?s
          = (Resolved accepted,
             printLogsAndFailures (receiverId (transaction tx')) [] (s3\<lparr>world := []\<rparr>))
      \<and> deleted (effects (snd (signAndSendTransactionV2 mock_connection no_classifier ''bob.test'' [] ?s)))
          = deleted (effects ?s) @ [publicKey (transaction tx)]"
    by blast
  note r = this
  have r1: "fst (signAndSendTransactionV2 mock_connection no_classifier ''bob.test'' [] ?s)
                   = Resolved accepted"
    using r[THEN conjunct1] by simp
  note r2 = r[THEN conjunct2]
  have "deleted (effects ?s) @ [publicKey (transaction tx)] = [test_key]"
    by (simp add: pk account0_def)
  with r1 r2 show ?thesis by simp
qed

text \<open>
  Claim C3. In an attempt whose transaction the node rejects with type Expired, the
  attempt gives the retry-signal; the cache is the one that signing left, no entry that
  was cached before the attempt is gone, and no deletion is recorded; the executor goes on
  with the attempts that are left, each of which signs again with a block hash it
  fetches. If the next attempt is accepted, the submission returns the node's outcome and
  no deletion has been added.
\<close>

theorem expired_retries_and_keeps_key:
  assumes sign: "signTransaction c rid acts s = (Resolved (txHash, signedTx), s1)"
    and send: "sendTransaction c signedTx (world s1) = (Rejected error, w)"
    and ty: "etype error = Some ''Expired''"
  shows "fst (tx_attempt c rid acts s) = Resolved None
       \<and> accessKeyByPublicKeyCache (snd (tx_attempt c rid acts s)) = accessKeyByPublicKeyCache s1
       \<and> accessKeyByPublicKeyCache s
           \<subseteq>\<^sub>m accessKeyByPublicKeyCache (snd (tx_attempt c rid acts s))
       \<and> deleted (effects (snd (tx_attempt c rid acts s))) = deleted (effects s)
       \<and> heap (snd (tx_attempt c rid acts s)) = heap s1
       \<and> world (snd (tx_attempt c rid acts s)) = w
       \<and> exponentialBackoff TX_NONCE_RETRY_WAIT TX_NONCE_RETRY_NUMBER TX_NONCE_RETRY_WAIT_BACKOFF
            (tx_attempt c rid acts) s
           = backoff_attempts (TX_NONCE_RETRY_NUMBER - 1) (tx_attempt c rid acts)
               (snd (tx_attempt c rid acts s))
       \<and> (\<forall>txHash' signedTx' s3 result w' flat.
             signTransaction c rid acts (snd (tx_attempt c rid acts s))
               = (Resolved (txHash', signedTx'), s3)
             \<and> sendTransaction c signedTx' (world s3) = (Resolved result, w')
             \<and> flatLogs E result = Some flat \<and> status_failure E result = Some None \<longrightarrow>
               signAndSendTransactionV2 c E rid acts s
                 = (Resolved result,
                    printLogsAndFailures (receiverId (transaction signedTx')) flat (s3\<lparr>world := w'\<rparr>))
             \<and> deleted (effects (snd (signAndSendTransactionV2 c E rid acts s)))
                 = deleted (effects s))"
proof -
  define s2 where "s2 = snd (tx_attempt c rid acts s)"
  have ne: "etype error \<noteq> Some ''InvalidNonce''" using ty by simp
  have d1: "deleted (effects s1) = deleted (effects s)"
    using signTransaction_deleted[of c rid acts s] sign by simp
  have g1: "accessKeyByPublicKeyCache s \<subseteq>\<^sub>m accessKeyByPublicKeyCache s1"
    using signTransaction_grows[of s c rid acts] sign by simp
  have f: "fst (tx_attempt c rid acts s) = Resolved None"
    using sign send ty by (simp add: tx_attempt_def)
  then have att: "tx_attempt c rid acts s = (Resolved None, s2)"
    by (simp add: s2_def prod_eq_iff)
  have cache: "accessKeyByPublicKeyCache s2 = accessKeyByPublicKeyCache s1"
    unfolding s2_def using sign send ty by (simp add: tx_attempt_def logWarning_fields)
  have dl: "deleted (effects s2) = deleted (effects s)"
    unfolding s2_def using sign send ty d1 by (simp add: tx_attempt_def logWarning_fields)
  have hw: "heap s2 = heap s1" "world s2 = w"
    unfolding s2_def using sign send ty by (simp_all add: tx_attempt_def logWarning_fields)
  have cont: "backoff_attempts TX_NONCE_RETRY_NUMBER (tx_attempt c rid acts) s
                = backoff_attempts (TX_NONCE_RETRY_NUMBER - 1) (tx_attempt c rid acts) s2"
    by (subst tx_retry_number_Suc) (simp add: att)
  have scen: "signAndSendTransactionV2 c E rid acts s
                 = (Resolved result,
                    printLogsAndFailures (receiverId (transaction signedTx')) flat (s3\<lparr>world := w'\<rparr>))
             \<and> deleted (effects (snd (signAndSendTransactionV2 c E rid acts s)))
                 = deleted (effects s)"
    if s2: "signTransaction c rid acts s2 = (Resolved (txHash', signedTx'), s3)"
      and ok: "sendTransaction c signedTx' (world s3) = (Resolved result, w')"
      and fl: "flatLogs E result = Some flat" and st: "status_failure E result = Some None"
    for txHash' signedTx' s3 result w' flat
  proof -
    have a2: "tx_attempt c rid acts s2 = (Resolved (Some (result, signedTx')), s3\<lparr>world := w'\<rparr>)"
      using s2 ok by (simp add: tx_attempt_def)
    have "backoff_attempts (TX_NONCE_RETRY_NUMBER - 1) (tx_attempt c rid acts) s2
            = (Resolved (Some (result, signedTx')), s3\<lparr>world := w'\<rparr>)"
      by (subst tx_retry_number_Suc2) (simp add: a2)
    with cont have r: "signAndSendTransactionV2 c E rid acts s
            = report_outcome E (result, signedTx') (s3\<lparr>world := w'\<rparr>)"
      by (simp add: submission_unfold)
    have d3: "deleted (effects s3) = deleted (effects s2)"
      using signTransaction_deleted[of c rid acts s2] s2 by simp
    from r fl st d3 dl show ?thesis
      by (simp add: report_outcome_def Let_def printLogs_deleted)
  qed
  have e: "snd (tx_attempt c rid acts s) = s2" by (simp add: s2_def)
  have g: "accessKeyByPublicKeyCache s \<subseteq>\<^sub>m accessKeyByPublicKeyCache s2"
    using g1 cache by simp
  show ?thesis
    unfolding e exponentialBackoff_def
    using f cache g dl hw cont scen by blast
qed

theorem expired_retries_and_keeps_key_witness:
  "fst (signAndSendTransactionV2 mock_connection no_classifier ''bob.test'' []
          (account0 [TypedError ''transaction has expired'' ''Expired''])) = Resolved accepted
   \<and> deleted (effects (snd (signAndSendTransactionV2 mock_connection no_classifier ''bob.test'' []
          (account0 [TypedError ''transaction has expired'' ''Expired''])))) = []
   \<and> accessKeyByPublicKeyCache (snd (tx_attempt mock_connection ''bob.test'' []
          (account0 [TypedError ''transaction has expired'' ''Expired'']))) test_key = Some 0"
proof -
  let ?e = "TypedError ''transaction has expired'' ''Expired''"
  let ?s = "account0 [?e]"
  let ?s2 = "snd (tx_attempt mock_connection ''bob.test'' [] ?s)"
  obtain h tx s1 where sign: "signTransaction mock_connection ''bob.test'' [] ?s = (Resolved (h, tx), s1)"
    and w1: "world s1 = world ?s"
    using mock_sign_shape[of "''bob.test''" "[]" ?s] by blast
  have c1: "accessKeyByPublicKeyCache s1 test_key = Some 0"
    using sign
    by (simp add: signTransaction_def findAccessKey_def findAccessKey_resume_def
          mock_connection_def mock_sign_def Let_def account0_def) auto
  have send: "sendTransaction mock_connection tx (world s1) = (Rejected ?e, [])"
    by (simp add: w1 mock_connection_def mock_send_def account0_def)
  have ty: "etype ?e = Some ''Expired''" by (simp add: TypedError_def)
  note t = expired_retries_and_keeps_key[OF sign send ty, where E = no_classifier]
  obtain h' tx' s3 where sign2: "signTransaction mock_connection ''bob.test'' [] ?s2 = (Resolved (h', tx'), s3)"
    and w3: "world s3 = world ?s2"
    using mock_sign_shape[of "''bob.test''" "[]" ?s2] by blast
  from t have "world ?s2 = []" by blast
  with w3 have send2: "sendTransaction mock_connection tx' (world s3) = (Resolved accepted, [])"
    by (simp add: mock_connection_def mock_send_def)
  from t sign2 send2 accepted_report[of no_classifier]
  have "signAndSendTransactionV2 mock_connection no_classifier ''bob.test'' [] ?s
          = (Resolved accepted,
             printLogsAndFailures (receiverId (transaction tx')) [] (s3\<lparr>world := []\<rparr>))
      \<and> deleted (effects (snd (signAndSendTransactionV2 mock_connection no_classifier ''bob.test'' [] ?s)))
          = deleted (effects ?s)"
    by blast
  note r = this
  have r1: "fst (signAndSendTransactionV2 mock_connection no_classifier ''bob.test'' [] ?s)
                   = Resolved accepted"
    using r[THEN conjunct1] by simp
  note r2 = r[THEN conjunct2]
  have r3: "deleted (effects ?s) = []" by (simp add: account0_def)
  from t have "accessKeyByPublicKeyCache ?s2 = accessKeyByPublicKeyCache s1" by blast
  with c1 have r4: "accessKeyByPublicKeyCache ?s2 test_key = Some 0" by simp
  from r1 r2 r3 r4 show ?thesis by simp
qed

subsection \<open>The invariant over whole submissions\<close>

text \<open>
  Warnings, deletions and printed reports leave the nonces alone, so a submission with
  all its retries keeps the cache in line as well.
\<close>

lemma issued_Printed: "issued a (map (Printed cid) flat) = []"
  by (induction flat) simp_all

lemma logWarning_lineage: "nonce_lineage (logWarning t s) = nonce_lineage s"
  by (simp add: logWarning_def nonce_lineage_def issued_append)

lemma printLogs_lineage: "nonce_lineage (printLogsAndFailures cid flat s) = nonce_lineage s"
  by (simp add: printLogsAndFailures_def nonce_lineage_def issued_append issued_Printed)

lemma delete_lineage:
  "nonce_lineage s \<Longrightarrow>
   nonce_lineage (s\<lparr>accessKeyByPublicKeyCache := (accessKeyByPublicKeyCache s)(pk := None),
                    effects := effects s @ [Deleted pk]\<rparr>)"
  by (auto simp: nonce_lineage_def issued_append split: if_splits)

lemma tx_attempt_lineage:
  assumes inv: "nonce_lineage s"
  shows "nonce_lineage (snd (tx_attempt c rid acts s))"
proof -
  obtain r s1 where sg: "signTransaction c rid acts s = (r, s1)"
    by (cases "signTransaction c rid acts s")
  have inv1: "nonce_lineage s1"
    using signTransaction_lineage[OF inv, of c rid acts] sg by simp
  show ?thesis
  proof (cases r)
    case (Resolved ht)
    obtain h tx where ht: "ht = (h, tx)" by (cases ht)
    obtain q w where q: "sendTransaction c tx (world s1) = (q, w)"
      by (cases "sendTransaction c tx (world s1)")
    have invw: "nonce_lineage (s1\<lparr>world := w\<rparr>)" using inv1 by (simp add: nonce_lineage_world)
    show ?thesis
    proof (cases q)
      case (Rejected e)
      show ?thesis
        using sg Resolved ht q Rejected invw
          delete_lineage[of "logWarning t (s1\<lparr>world := w\<rparr>)" for t]
        by (simp add: tx_attempt_def Let_def logWarning_lineage)
    qed (use sg Resolved ht q invw in \<open>simp_all add: tx_attempt_def\<close>)
  qed (use sg inv1 in \<open>simp_all add: tx_attempt_def\<close>)
qed

lemma backoff_invariant:
  assumes step: "\<And>t. P t \<Longrightarrow> P (snd (f t))"
  shows "P s \<Longrightarrow> P (snd (backoff_attempts n f s))"
proof (induction n arbitrary: s)
  case 0
  then show ?case by simp
next
  case (Suc n)
  obtain r t where rt: "f s = (r, t)" by (cases "f s")
  with step[OF Suc.prems] have pt: "P t" by simp
  show ?case
  proof (cases r)
    case (Resolved x)
    with rt pt Suc.IH[OF pt] show ?thesis by (cases x) simp_all
  qed (use rt pt in simp_all)
qed

lemma submission_lineage:
  assumes inv: "nonce_lineage s"
  shows "nonce_lineage (snd (signAndSendTransactionV2 c E rid acts s))"
proof -
  let ?b = "backoff_attempts TX_NONCE_RETRY_NUMBER (tx_attempt c rid acts) s"
  have b: "nonce_lineage (snd ?b)"
    by (rule backoff_invariant[where P = nonce_lineage]) (simp_all add: tx_attempt_lineage inv)
  obtain r t where rt: "?b = (r, t)" by (cases ?b)
  with b have t: "nonce_lineage t" by simp
  show ?thesis
  proof (cases r)
    case (Resolved x)
    show ?thesis
    proof (cases x)
      case None
      with rt Resolved t show ?thesis by (simp add: submission_unfold)
    next
      case (Some rs)
      with rt Resolved t show ?thesis
        by (simp add: submission_unfold report_outcome_def Let_def printLogs_lineage
              split: prod.splits option.splits)
    qed
  qed (use rt t in \<open>simp_all add: submission_unfold\<close>)
qed

text \<open>
  Claim C5. When the network query of \<open>findAccessKey\<close> settles with an access key and
  the cache holds an entry for the public key by then, the response is dropped: the
  cached reference is returned and the account is unchanged. So when two resolutions of
  an uncached key both have their query in flight and the responses arrive one after the
  other, the first is stored under a new reference, the second is dropped, both callers
  get that same reference, and the cache has gained the one entry.
\<close>

theorem cached_key_wins_over_late_response:
  "(accessKeyByPublicKeyCache s pk = Some a \<longrightarrow>
      findAccessKey_resume pk (Resolved late) s = (Resolved (Some (pk, a)), s))
   \<and> (accessKeyByPublicKeyCache s pk = None \<longrightarrow>
      (case findAccessKey_resume pk (Resolved first) s of
         (r1, s1) \<Rightarrow>
           (case findAccessKey_resume pk (Resolved second) s1 of
              (r2, s2) \<Rightarrow>
                r1 = Resolved (Some (pk, next_ref s)) \<and> r2 = r1 \<and> s2 = s1
                \<and> accessKeyByPublicKeyCache s2 = (accessKeyByPublicKeyCache s)(pk \<mapsto> next_ref s)
                \<and> heap s2 (next_ref s) = first)))"
  by (simp add: findAccessKey_resume_def)

lemma get_prop_read:
  "v \<noteq> JNull \<Longrightarrow> v \<noteq> JUndefined \<Longrightarrow> get_prop v k = Some (read_prop v k)"
  by (cases v) (simp_all add: read_prop_def split: option.splits)

lemma typeof_undefined: "(typeof f = ''undefined'') = (f = JUndefined)"
  by (cases f) simp_all

lemma flat_step_spec:
  assumes "status (outcome it) \<noteq> JNull" "status (outcome it) \<noteq> JUndefined"
  shows "flat_step E it = Some (if spec_reported it then [spec_entry E it] else [])"
  using assms
  by (simp add: flat_step_def Let_def get_prop_read spec_reported_def spec_entry_def
        flat_entry_def typeof_undefined)

lemma flat_reduce_spec:
  assumes "\<forall>it \<in> set its. status (outcome it) \<noteq> JNull \<and> status (outcome it) \<noteq> JUndefined"
  shows "flat_reduce E its acc = Some (acc @ map (spec_entry E) (filter spec_reported its))"
  using assms
proof (induction its arbitrary: acc)
  case Nil
  then show ?case by simp
next
  case (Cons it its)
  then show ?case by (simp add: flat_step_spec)
qed

text \<open>
  Claim C9. For an outcome whose statuses are strings or objects, as the node reports
  them, the flattened report is, in order, the entries of those outcomes among the
  transaction outcome and then the receipt outcomes that the specification's wording
  selects, each with its receipt ids, its logs and its parsed failure or \<open>null\<close>; and it
  is what \<open>signAndSendTransaction\<close> hands to \<open>printLogsAndFailures\<close>.
\<close>

theorem flat_report_is_the_reported_outcomes:
  assumes "\<forall>it \<in> set (transaction_outcome result # receipts_outcome result).
             status (outcome it) \<noteq> JNull \<and> status (outcome it) \<noteq> JUndefined"
  shows "flatLogs E result
           = Some (map (spec_entry E)
                    (filter spec_reported (transaction_outcome result # receipts_outcome result)))
       \<and> effects (snd (report_outcome E (result, signedTx) s))
           = effects s
             @ (if logs_suppressed (env_NEAR_NO_LOGS s) then []
                else map (Printed (receiverId (transaction signedTx)))
                       (map (spec_entry E)
                         (filter spec_reported
                            (transaction_outcome result # receipts_outcome result))))"
proof -
  have f: "flatLogs E result
           = Some (map (spec_entry E)
                    (filter spec_reported (transaction_outcome result # receipts_outcome result)))"
    unfolding flatLogs_def using flat_reduce_spec[OF assms, of E "[]"] by simp
  show ?thesis
    by (simp add: f report_outcome_def printLogsAndFailures_def Let_def
          split: option.splits)
qed

theorem flat_report_is_the_reported_outcomes_witness:
  "flatLogs no_classifier logged_outcome
       = Some [\<lparr>receiptIds = [''r2''], log_lines = [''hello''], failure = None\<rparr>,
               \<lparr>receiptIds = [], log_lines = [],
                failure = Some (TypedError ''classified'' ''ServerError'')\<rparr>]"
proof -
  have wf: "\<forall>it \<in> set (transaction_outcome logged_outcome # receipts_outcome logged_outcome).
        status (outcome it) \<noteq> JNull \<and> status (outcome it) \<noteq> JUndefined"
    by (simp add: logged_outcome_def)
  have "map (spec_entry no_classifier)
          (filter spec_reported (transaction_outcome logged_outcome # receipts_outcome logged_outcome))
        = [\<lparr>receiptIds = [''r2''], log_lines = [''hello''], failure = None\<rparr>,
           \<lparr>receiptIds = [], log_lines = [],
            failure = Some (TypedError ''classified'' ''ServerError'')\<rparr>]"
    by (simp add: logged_outcome_def spec_reported_def spec_entry_def read_prop_def
          no_classifier_def)
  with flat_report_is_the_reported_outcomes[OF wf, THEN conjunct1, of no_classifier] wf
  show ?thesis by simp
qed

theorem cached_key_wins_over_late_response_witness:
  "accessKeyByPublicKeyCache (account0 []) test_key = None
   \<and> (case findAccessKey_resume test_key (Resolved \<lparr>nonce = 5, permission = JNull\<rparr>) (account0 []) of
        (r1, s1) \<Rightarrow>
          accessKeyByPublicKeyCache s1 test_key = Some 0
          \<and> findAccessKey_resume test_key (Resolved \<lparr>nonce = 9, permission = JNull\<rparr>) s1 = (r1, s1)
          \<and> r1 = Resolved (Some (test_key, 0))
          \<and> dom (accessKeyByPublicKeyCache s1) = {test_key}
          \<and> nonce (heap s1 0) = 5)"
proof -
  have n: "accessKeyByPublicKeyCache (account0 []) test_key = None"
    by (simp add: account0_def)
  obtain r1 s1 where r: "findAccessKey_resume test_key (Resolved \<lparr>nonce = 5, permission = JNull\<rparr>)
                           (account0 []) = (r1, s1)"
    by (cases "findAccessKey_resume test_key (Resolved \<lparr>nonce = 5, permission = JNull\<rparr>) (account0 [])")
  from cached_key_wins_over_late_response[of "account0 []" test_key _ _
         "\<lparr>nonce = 5, permission = JNull\<rparr>" "\<lparr>nonce = 9, permission = JNull\<rparr>"] n r
  have a: "r1 = Resolved (Some (test_key, 0))"
    and b: "findAccessKey_resume test_key (Resolved \<lparr>nonce = 9, permission = JNull\<rparr>) s1 = (r1, s1)"
    and c: "accessKeyByPublicKeyCache s1 = (accessKeyByPublicKeyCache (account0 []))(test_key \<mapsto> 0)"
    and d: "heap s1 0 = \<lparr>nonce = 5, permission = JNull\<rparr>"
    by (auto simp: account0_def split: prod.splits)
  from c have e: "accessKeyByPublicKeyCache s1 test_key = Some 0"
    "dom (accessKeyByPublicKeyCache s1) = {test_key}"
    by (simp_all add: account0_def)
  from n r a b e d show ?thesis by simp
qed

lemma classify_error_legacy:
  assumes "map_of ekvs ''data'' = Some (JObj dkvs)"
    and "map_of dkvs ''error_message'' = Some (JStr m)"
    and "map_of dkvs ''error_type'' = Some (JStr t)"
  shows "classify_error E (JObj ekvs) = TypedError m t"
  using assms by (simp add: classify_error_def read_prop_def)

lemma rpc_try_legacy:
  assumes resp: "request \<lparr>jsonrpc = ''2.0'', req_id = nextId s, rpc_method = method_name, params = ps\<rparr>
                   (proxy s) = (Resolved (JObj rkvs), p)"
    and err: "map_of rkvs ''error'' = Some (JObj ekvs)"
    and data: "map_of ekvs ''data'' = Some (JObj dkvs)"
    and m: "map_of dkvs ''error_message'' = Some (JStr m)"
    and t: "map_of dkvs ''error_type'' = Some (JStr t)"
  shows "rpc_try E request txs method_name ps s
           = (Rejected (TypedError m t), s\<lparr>nextId := nextId s + 1, proxy := p\<rparr>)"
  using resp err by (simp add: rpc_try_def Let_def classify_error_legacy[OF data m t])

lemma status_failure_legacy:
  assumes st: "final_status result = JObj skvs"
    and f: "map_of skvs ''Failure'' = Some (JObj fkvs)"
    and m: "map_of fkvs ''error_message'' = Some (JStr m)"
    and t: "map_of fkvs ''error_type'' = Some (JStr t)"
  shows "status_failure E result =
           Some (Some (if m \<noteq> [] \<and> t \<noteq> []
                       then TypedError (''Transaction '' @ outcome_id (transaction_outcome result)
                                        @ '' failed. '' @ m) t
                       else parseResultError E result))"
  using assms by (simp add: status_failure_def)

text \<open>
  Where the old format is taken directly. An RPC \<open>error.data\<close> that is an object with
  string fields \<open>error_message\<close> and \<open>error_type\<close> makes the attempt of \<open>sendJsonRpc\<close>
  throw \<open>TypedError(error_message, error_type)\<close>, which \<open>sendJsonRpc\<close> raises unless
  the type is TimeoutError. A top-level status \<open>Failure\<close> with such fields makes
  \<open>signAndSendTransaction\<close> raise the TypedError with the message
  \<open>Transaction <id> failed. <error_message>\<close> and the kind \<open>error_type\<close>, without the
  general classifier, when both strings are non-empty.
\<close>

theorem legacy_error_built_from_its_fields:
  "(request \<lparr>jsonrpc = ''2.0'', req_id = nextId s, rpc_method = method_name, params = ps\<rparr>
       (proxy s) = (Resolved (JObj rkvs), p)
     \<and> map_of rkvs ''error'' = Some (JObj ekvs)
     \<and> map_of ekvs ''data'' = Some (JObj dkvs)
     \<and> map_of dkvs ''error_message'' = Some (JStr m)
     \<and> map_of dkvs ''error_type'' = Some (JStr t) \<longrightarrow>
       rpc_try E request (txStatusString d E request) method_name ps s
         = (Rejected (TypedError m t), s\<lparr>nextId := nextId s + 1, proxy := p\<rparr>)
     \<and> (t \<noteq> ''TimeoutError'' \<longrightarrow>
          sendJsonRpc (Suc d) E request method_name ps s
            = (Rejected (TypedError m t), s\<lparr>nextId := nextId s + 1, proxy := p\<rparr>)))
   \<and> (final_status result = JObj skvs
     \<and> map_of skvs ''Failure'' = Some (JObj fkvs)
     \<and> map_of fkvs ''error_message'' = Some (JStr m')
     \<and> map_of fkvs ''error_type'' = Some (JStr t')
     \<and> m' \<noteq> [] \<and> t' \<noteq> [] \<and> flatLogs E result = Some flat \<longrightarrow>
       report_outcome E (result, signedTx) a
         = (Rejected (TypedError (''Transaction '' @ outcome_id (transaction_outcome result)
                                  @ '' failed. '' @ m') t'),
            printLogsAndFailures (receiverId (transaction signedTx)) flat a))"
proof -
  let ?A = "rpc_attempt E request (txStatusString d E request) method_name ps"
  let ?s' = "s\<lparr>nextId := nextId s + 1, proxy := p\<rparr>"
  have rpc: "sendJsonRpc (Suc d) E request method_name ps s = (Rejected (TypedError m t), ?s')"
    if tr: "rpc_try E request (txStatusString d E request) method_name ps s
              = (Rejected (TypedError m t), ?s')"
      and nt: "t \<noteq> ''TimeoutError''"
  proof -
    from nt have "etype (TypedError m t) \<noteq> Some ''TimeoutError''"
      by (simp add: TypedError_def)
    with rpc_attempt_of_try[OF tr] have "?A s = (Rejected (TypedError m t), ?s')" by simp
    then have "backoff_attempts REQUEST_RETRY_NUMBER ?A s = (Rejected (TypedError m t), ?s')"
      by (subst retry_number_Suc) (rule backoff_first_reject)
    then show ?thesis by (simp add: sendJsonRpc_Suc check_result_def)
  qed
  have acct: "report_outcome E (result, signedTx) a
         = (Rejected (TypedError (''Transaction '' @ outcome_id (transaction_outcome result)
                                  @ '' failed. '' @ m') t'),
            printLogsAndFailures (receiverId (transaction signedTx)) flat a)"
    if "final_status result = JObj skvs" "map_of skvs ''Failure'' = Some (JObj fkvs)"
      "map_of fkvs ''error_message'' = Some (JStr m')" "map_of fkvs ''error_type'' = Some (JStr t')"
      "m' \<noteq> []" "t' \<noteq> []" "flatLogs E result = Some flat"
    using that status_failure_legacy[of result skvs fkvs m' t' E]
    by (simp add: report_outcome_def Let_def)
  show ?thesis
    using rpc rpc_try_legacy[of request s method_name ps rkvs p ekvs dkvs m t E
                               "txStatusString d E request"] acct
    by blast
qed

lemma node_returning_run:
  "signAndSendTransactionV2 (node_returning result) E ''bob.test'' [] (account0 [])
     = report_outcome E
         (result,
          \<lparr>transaction = \<lparr>signerId = ''alice.test'', publicKey = test_key, tx_nonce = 6,
                           receiverId = ''bob.test'', actions = [], blockHash = ''9fJcQ''\<rparr>,
           signature = ''sig''\<rparr>)
         (account0 []\<lparr>heap := (heap (account0 []))(0 := \<lparr>nonce = 6, permission = JStr ''FullAccess''\<rparr>),
                      next_ref := 1,
                      accessKeyByPublicKeyCache := [test_key \<mapsto> 0],
                      effects := [Issued 0 6]\<rparr>)"
proof -
  have "tx_attempt (node_returning result) ''bob.test'' [] (account0 [])
     = (Resolved (Some (result,
          \<lparr>transaction = \<lparr>signerId = ''alice.test'', publicKey = test_key, tx_nonce = 6,
                           receiverId = ''bob.test'', actions = [], blockHash = ''9fJcQ''\<rparr>,
           signature = ''sig''\<rparr>)),
         account0 []\<lparr>heap := (heap (account0 []))(0 := \<lparr>nonce = 6, permission = JStr ''FullAccess''\<rparr>),
                      next_ref := 1,
                      accessKeyByPublicKeyCache := [test_key \<mapsto> 0],
                      effects := [Issued 0 6]\<rparr>)"
    by (simp add: tx_attempt_def signTransaction_def findAccessKey_def findAccessKey_resume_def
          node_returning_def mock_connection_def mock_sign_def account0_def Let_def
          js_increment_def exact_range_def)
  then have "backoff_attempts TX_NONCE_RETRY_NUMBER
               (tx_attempt (node_returning result) ''bob.test'' []) (account0 [])
     = (Resolved (Some (result,
          \<lparr>transaction = \<lparr>signerId = ''alice.test'', publicKey = test_key, tx_nonce = 6,
                           receiverId = ''bob.test'', actions = [], blockHash = ''9fJcQ''\<rparr>,
           signature = ''sig''\<rparr>)),
         account0 []\<lparr>heap := (heap (account0 []))(0 := \<lparr>nonce = 6, permission = JStr ''FullAccess''\<rparr>),
                      next_ref := 1,
                      accessKeyByPublicKeyCache := [test_key \<mapsto> 0],
                      effects := [Issued 0 6]\<rparr>)"
    by (subst tx_retry_number_Suc) (rule backoff_first_some)
  then show ?thesis by (simp add: submission_unfold)
qed

theorem legacy_error_built_from_its_fields_witness:
  "rpc_try no_classifier legacy_proxy (txStatusString 0 no_classifier legacy_proxy) ''query''
      (JArr []) provider0
     = (Rejected (TypedError ''m'' ''T''), provider0\<lparr>nextId := 124\<rparr>)
   \<and> sendJsonRpc (Suc 0) no_classifier legacy_proxy ''query'' (JArr []) provider0
     = (Rejected (TypedError ''m'' ''T''), provider0\<lparr>nextId := 124\<rparr>)
   \<and> fst (signAndSendTransactionV2 (node_returning (legacy_failure ''m'' ''T'')) no_classifier
            ''bob.test'' [] (account0 []))
     = Rejected (TypedError ''Transaction tx failed. m'' ''T'')"
proof -
  let ?tx = "\<lparr>transaction = \<lparr>signerId = ''alice.test'', publicKey = test_key, tx_nonce = 6,
                           receiverId = ''bob.test'', actions = [], blockHash = ''9fJcQ''\<rparr>,
           signature = ''sig''\<rparr>"
  let ?a = "account0 []\<lparr>heap := (heap (account0 []))(0 := \<lparr>nonce = 6, permission = JStr ''FullAccess''\<rparr>),
                      next_ref := 1,
                      accessKeyByPublicKeyCache := [test_key \<mapsto> 0],
                      effects := [Issued 0 6]\<rparr>"
  have p: "provider0\<lparr>nextId := nextId provider0 + 1, proxy := ()\<rparr> = provider0\<lparr>nextId := 124\<rparr>"
    by (simp add: provider0_def)
  have fl: "flatLogs no_classifier (legacy_failure ''m'' ''T'') = Some []"
    by (simp add: flatLogs_def flat_step_def legacy_failure_def accepted_def)
  have st: "final_status (legacy_failure ''m'' ''T'')
              = JObj [(''Failure'', JObj [(''error_message'', JStr ''m''), (''error_type'', JStr ''T'')])]"
    and oid: "outcome_id (transaction_outcome (legacy_failure ''m'' ''T'')) = ''tx''"
    by (simp_all add: legacy_failure_def accepted_def)
  note t = legacy_error_built_from_its_fields[where request = legacy_proxy and s = provider0
         and method_name = "''query''" and ps = "JArr []" and p = "()"
         and rkvs = "[(''error'', JObj [(''code'', JNum (- 32000)),
             (''data'', JObj [(''error_message'', JStr ''m''), (''error_type'', JStr ''T'')])])]"
         and ekvs = "[(''code'', JNum (- 32000)),
             (''data'', JObj [(''error_message'', JStr ''m''), (''error_type'', JStr ''T'')])]"
         and dkvs = "[(''error_message'', JStr ''m''), (''error_type'', JStr ''T'')]"
         and m = "''m''" and t = "''T''" and d = 0 and E = no_classifier
         and result = "legacy_failure ''m'' ''T''"
         and skvs = "[(''Failure'', JObj [(''error_message'', JStr ''m''),
                                          (''error_type'', JStr ''T'')])]"
         and fkvs = "[(''error_message'', JStr ''m''), (''error_type'', JStr ''T'')]"
         and m' = "''m''" and t' = "''T''" and flat = "[]" and signedTx = ?tx and a = ?a]
  have A: "rpc_try no_classifier legacy_proxy (txStatusString 0 no_classifier legacy_proxy) ''query''
             (JArr []) provider0
            = (Rejected (TypedError ''m'' ''T''), provider0\<lparr>nextId := 124\<rparr>)
         \<and> sendJsonRpc (Suc 0) no_classifier legacy_proxy ''query'' (JArr []) provider0
            = (Rejected (TypedError ''m'' ''T''), provider0\<lparr>nextId := 124\<rparr>)"
    using t[THEN conjunct1] p by (simp add: legacy_proxy_def)
  have "fst (report_outcome no_classifier (legacy_failure ''m'' ''T'', ?tx) ?a)
          = Rejected (TypedError ''Transaction tx failed. m'' ''T'')"
    using t[THEN conjunct2] fl st oid by simp
  then have B: "fst (signAndSendTransactionV2 (node_returning (legacy_failure ''m'' ''T''))
                  no_classifier ''bob.test'' [] (account0 []))
          = Rejected (TypedError ''Transaction tx failed. m'' ''T'')"
    by (simp add: node_returning_run)
  from A B show ?thesis by simp
qed

text \<open>
  Claim C8. A payload of the old format, an object with string fields \<open>error_message\<close>
  and \<open>error_type\<close>, is to give the TypedError built from the two fields in both
  layers. \<open>sendJsonRpc\<close> tests the fields with \<open>typeof\<close>; line 150 of
  \<open>signAndSendTransaction\<close> tests them by truthiness. So for a top-level status
  \<open>Failure\<close> whose \<open>error_message\<close> is the empty string and whose \<open>error_type\<close> is
  \<open>T\<close>, the submission raises what the general classifier \<open>parseResultError\<close>
  returns, and not the TypedError of kind \<open>T\<close> built from the fields.
\<close>

theorem empty_legacy_message_goes_to_classifier:
  "fst (signAndSendTransactionV2 (node_returning (legacy_failure [] ''T'')) no_classifier
          ''bob.test'' [] (account0 []))
     = Rejected (parseResultError no_classifier (legacy_failure [] ''T''))
   \<and> fst (signAndSendTransactionV2 (node_returning (legacy_failure [] ''T'')) no_classifier
          ''bob.test'' [] (account0 []))
     \<noteq> Rejected (TypedError (''Transaction '' @ outcome_id (transaction_outcome (legacy_failure [] ''T''))
                             @ '' failed. '' @ []) ''T'')"
  by (simp add: node_returning_run report_outcome_def flatLogs_def flat_step_def
        status_failure_def legacy_failure_def accepted_def printLogsAndFailures_def
        no_classifier_def TypedError_def Let_def)

end
